theory Spec2Isabelle
  imports Main
begin

section \<open>Python values and effects shared by the notebooks\<close>

text \<open>
  Exceptions are values: a function that can raise returns \<open>error + 'a\<close>, with
  \<open>Inl\<close> carrying the exception. \<open>OtherError\<close> stands for whatever a third-party
  library raises (a failed task, a connection error).
\<close>

datatype error =
    ValueError string
  | KeyError string
  | AttributeError string
  | RecursionError
  | OtherError string

text \<open>
  A call into the outside world (the language model behind ControlFlow, the network
  behind requests) takes the state of that world and gives back its outcome and the new
  state.
\<close>

type_synonym ('w, 'r) action = "'w \<Rightarrow> (error + 'r) \<times> 'w"

definition returns :: "'r \<Rightarrow> ('w, 'r) action" where
  "returns x w = (Inr x, w)"

definition bind_action :: "('w, 'a) action \<Rightarrow> ('a \<Rightarrow> ('w, 'b) action) \<Rightarrow> ('w, 'b) action" where
  "bind_action m f w = (case m w of (Inl e, w') \<Rightarrow> (Inl e, w') | (Inr x, w') \<Rightarrow> f x w')"

text \<open>
  An observer for a third-party entry point: it behaves as the entry point does and
  appends the arguments of every invocation to a log kept beside the world.
\<close>

definition logged :: "('a \<Rightarrow> ('w, 'r) action) \<Rightarrow> 'a \<Rightarrow> ('w \<times> 'a list, 'r) action" where
  "logged f a = (\<lambda>(w, log). case f a w of (r, w') \<Rightarrow> (r, (w', log @ [a])))"

subsection \<open>Built-in string and dictionary operations\<close>

text \<open>
  Strings are lists of 8-bit characters. \<open>str.strip()\<close> without an argument removes
  the characters for which \<open>str.isspace\<close> holds; below code point 256 these are
  9 to 13, 28 to 32, 133 and 160.
\<close>

definition isspace :: "char \<Rightarrow> bool" where
  "isspace c = (of_char c \<in> {9, 10, 11, 12, 13, 28, 29, 30, 31, 32, 133, 160 :: nat})"

definition lstrip :: "string \<Rightarrow> string" where
  "lstrip s = dropWhile isspace s"

definition rstrip :: "string \<Rightarrow> string" where
  "rstrip s = rev (dropWhile isspace (rev s))"

definition strip :: "string \<Rightarrow> string" where
  "strip s = rstrip (lstrip s)"

text \<open>\<open>s.replace(old, new)\<close> for a pattern \<open>old\<close> of one character.\<close>

definition replace_char :: "char \<Rightarrow> string \<Rightarrow> string \<Rightarrow> string" where
  "replace_char old new s = concat (map (\<lambda>c. if c = old then new else [c]) s)"

text \<open>The decimal text of an integer, as an f-string field prints it.\<close>

fun str_nat :: "nat \<Rightarrow> string" where
  "str_nat n =
     (if n < 10 then [char_of (48 + n)] else str_nat (n div 10) @ [char_of (48 + n mod 10)])"

declare str_nat.simps [simp del]

definition str_int :: "int \<Rightarrow> string" where
  "str_int i = (if i < 0 then CHR ''-'' # str_nat (nat (- i)) else str_nat (nat i))"

text \<open>
  A dictionary keeps its keys in insertion order: \<open>d[k] = v\<close> replaces the value of a
  key that is present, where it stands, and appends a new key at the end. \<open>d[k]\<close>
  raises KeyError for a missing key.
\<close>

fun dict_set :: "'k \<Rightarrow> 'v \<Rightarrow> ('k \<times> 'v) list \<Rightarrow> ('k \<times> 'v) list" where
  "dict_set k v [] = [(k, v)]"
| "dict_set k v ((k', v') # d) = (if k' = k then (k', v) # d else (k', v') # dict_set k v d)"

definition dict_get :: "(string \<times> 'v) list \<Rightarrow> string \<Rightarrow> error + 'v" where
  "dict_get d k = (case map_of d k of None \<Rightarrow> Inl (KeyError k) | Some v \<Rightarrow> Inr v)"

section \<open>learning/controlflow/examples/example3.ipynb\<close>

subsection \<open>The code review cell\<close>

text \<open>
  \<^verbatim>\<open>
  class CodeReview(BaseModel):
      status: str
      issues: List[str]
      suggestions: List[str]
      approval: bool
  \<close>
\<close>

record CodeReview =
  status :: string
  issues :: "string list"
  suggestions :: "string list"
  approval :: bool

text \<open>
  \<^verbatim>\<open>
  def approve_code(result: CodeReview):
      return CodeReview(status="approved", issues=[],
          suggestions=["Code meets all quality standards"], approval=True)

  def reject_code(issues: List[str]):
      return CodeReview(status="rejected", issues=issues, suggestions=[], approval=False)
  \<close>
\<close>

definition approve_code :: "CodeReview \<Rightarrow> CodeReview" where
  "approve_code result =
     \<lparr>status = ''approved'',
      issues = [],
      suggestions = [''Code meets all quality standards''],
      approval = True\<rparr>"

definition reject_code :: "string list \<Rightarrow> CodeReview" where
  "reject_code issues' =
     \<lparr>status = ''rejected'',
      issues = issues',
      suggestions = [],
      approval = False\<rparr>"

text \<open>
  The agent and the task are plain data handed to the framework. A tool is one of the
  two authored functions; a context value is a string, an integer or a list of strings.
\<close>

datatype tool =
    ReviewTool "CodeReview \<Rightarrow> CodeReview"
  | IssuesTool "string list \<Rightarrow> CodeReview"

record agent =
  agent_name :: string
  agent_model :: string
  agent_instructions :: string
  agent_tools :: "tool list"

definition reviewer :: agent where
  "reviewer =
     \<lparr>agent_name = ''Code Reviewer'',
      agent_model = ''openai/gpt-4'',
      agent_instructions =
        ''You are an expert code reviewer. \<newline>    Analyze code for issues and provide constructive feedback.\<newline>    Only approve code that meets all quality standards.'',
      agent_tools = [ReviewTool approve_code, IssuesTool reject_code]\<rparr>"

subsection \<open>The result validator cell\<close>

text \<open>
  \<^verbatim>\<open>
  class NumberResult(BaseModel):
      number: int

  def validate_even(result: NumberResult) -> NumberResult:
      if result.number % 2 != 0:
          raise ValueError("The number must be even.")
      return result
  \<close>
  Python's \<open>%\<close> with the positive divisor 2 is the floored remainder, as \<open>mod\<close> on
  \<open>int\<close> is.
\<close>

record NumberResult =
  number :: int

definition validate_even :: "NumberResult \<Rightarrow> error + NumberResult" where
  "validate_even result =
     (if number result mod 2 \<noteq> 0 then Inl (ValueError ''The number must be even.'')
      else Inr result)"

subsection \<open>The two flows\<close>

datatype result_type = CodeReview_type | NumberResult_type

datatype pyval = PyStr string | PyInt int | PyStrList "string list"

text \<open>
  The keyword arguments of \<open>cf.run\<close>; an argument that a call does not pass is
  \<open>None\<close>.
\<close>

record task =
  task_objective :: string
  task_result_type :: result_type
  task_agents :: "agent list option"
  task_result_validator :: "(NumberResult \<Rightarrow> error + NumberResult) option"
  task_context :: "(string \<times> pyval) list"

definition review_task :: "string \<Rightarrow> task" where
  "review_task code =
     \<lparr>task_objective = ''Review the provided code and either approve or reject it'',
      task_result_type = CodeReview_type,
      task_agents = Some [reviewer],
      task_result_validator = None,
      task_context =
        [(''code'', PyStr code),
         (''requirements'',
            PyStrList [''Check for proper variable naming'',
                       ''Verify code efficiency'',
                       ''Look for potential bugs'',
                       ''Ensure code readability''])]\<rparr>"

definition check_task :: "int \<Rightarrow> task" where
  "check_task n =
     \<lparr>task_objective = ''Check if the number is even'',
      task_result_type = NumberResult_type,
      task_agents = None,
      task_result_validator = Some validate_even,
      task_context = [(''number'', PyInt n)]\<rparr>"

text \<open>
  \<^verbatim>\<open>
  @cf.flow
  def review_code(code: str):
      result = cf.run(objective=..., result_type=CodeReview, agents=[reviewer], context={...})
      return result

  @cf.flow
  def check_even_number(number: int):
      result = cf.run(objective=..., result_type=NumberResult,
                      result_validator=validate_even, context={"number": number})
      return result
  \<close>
  ControlFlow is not part of the repository: its \<open>run\<close> and its \<open>flow\<close> decorator are
  parameters. An exception raised by \<open>cf.run\<close> leaves the function at the assignment.
\<close>

definition review_code ::
  "((string \<Rightarrow> ('w, 'r) action) \<Rightarrow> (string \<Rightarrow> ('w, 'r) action)) \<Rightarrow>
   (task \<Rightarrow> ('w, 'r) action) \<Rightarrow> string \<Rightarrow> ('w, 'r) action" where
  "review_code cf_flow cf_run =
     cf_flow (\<lambda>code. bind_action (cf_run (review_task code)) (\<lambda>result. returns result))"

definition check_even_number ::
  "((int \<Rightarrow> ('w, 'r) action) \<Rightarrow> (int \<Rightarrow> ('w, 'r) action)) \<Rightarrow>
   (task \<Rightarrow> ('w, 'r) action) \<Rightarrow> int \<Rightarrow> ('w, 'r) action" where
  "check_even_number cf_flow cf_run =
     cf_flow (\<lambda>n. bind_action (cf_run (check_task n)) (\<lambda>result. returns result))"

section \<open>The Reddit scraping notebook\<close>

text \<open>
  The notebook is stored in \<^verbatim>\<open>personal_projects/31.ai-youtube-analysis/prompts/summarize.txt\<close>,
  from line 51 on, after the prompt text.
\<close>

subsection \<open>The BeautifulSoup cell\<close>

type_synonym details = "(string \<times> string) list"
type_synonym posts = "(string \<times> details) list"

record request =
  url :: string
  headers :: "(string \<times> string) list"

text \<open>The two attributes of a \<open>requests\<close> response that the cell reads: \<open>status_code\<close> and \<open>text\<close>.\<close>

record response =
  status_code :: int
  response_text :: string

text \<open>
  BeautifulSoup is not part of the repository. The five operations the cell uses are
  parameters: the constructor \<open>BeautifulSoup(markup, features)\<close>, \<open>soup.find_all(name)\<close>,
  \<open>tag.find(name, attrs)\<close> (\<open>None\<close> when nothing matches), \<open>tag.text\<close> and
  \<open>tag[key]\<close> (\<open>None\<close> stands for the KeyError of a missing attribute). A
  \<open>Tag\<close> is always true in a condition, so \<open>if title_tag:\<close> tests for \<open>None\<close>.
\<close>

record ('soup, 'tag) bs4 =
  BeautifulSoup :: "string \<Rightarrow> string \<Rightarrow> 'soup"
  find_all :: "'soup \<Rightarrow> string \<Rightarrow> 'tag list"
  find_tag :: "'tag \<Rightarrow> string \<Rightarrow> (string \<times> string) list \<Rightarrow> 'tag option"
  tag_text :: "'tag \<Rightarrow> string"
  tag_getitem :: "'tag \<Rightarrow> string \<Rightarrow> string option"

text \<open>
  The global variables of the notebook kernel that the cell assigns, and what it has
  printed. A variable that no cell has assigned yet is \<open>None\<close>. The variables of the
  loop bodies are local to the loops here.
\<close>

record ('soup, 'time) kernel =
  var_response :: "response option"
  var_soup :: "'soup option"
  var_now :: "'time option"
  posts_details :: "posts option"
  stdout :: "string list"

definition fresh_kernel :: "('soup, 'time) kernel" where
  "fresh_kernel =
     \<lparr>var_response = None, var_soup = None, var_now = None, posts_details = None, stdout = []\<rparr>"

definition scraper_request :: request where
  "scraper_request =
     \<lparr>url = ''https://www.reddit.com/r/LocalLLaMA/hot/'',
      headers =
        [(''User-Agent'',
          ''Mozilla/5.0 (Windows NT 10.0; Win64; x64) AppleWebKit/537.36 (KHTML, like Gecko) Chrome/58.0.3029.110 Safari/537.3'')]\<rparr>"

text \<open>
  \<^verbatim>\<open>
  for article in soup.find_all('article'):
      title_tag = article.find('a', {'slot': 'title'})
      if title_tag:
          title = title_tag.text.strip()
          link = title_tag['href']
          content = article.find('div', {'data-post-click-location': 'text-body'})
          content_text = content.text.strip() if content else "No content"
          posts_details[title] = {'link': link,
                                  'content': content_text.rstrip().replace("\n", "")}
  \<close>
  The loop returns the dictionary as it stands when the loop ends or an exception leaves
  it.
\<close>

fun article_loop :: "('soup, 'tag) bs4 \<Rightarrow> 'tag list \<Rightarrow> posts \<Rightarrow> error option \<times> posts" where
  "article_loop bs [] pd = (None, pd)"
| "article_loop bs (article # rest) pd =
     (case find_tag bs article ''a'' [(''slot'', ''title'')] of
        None \<Rightarrow> article_loop bs rest pd
      | Some title_tag \<Rightarrow>
          (let title = strip (tag_text bs title_tag) in
           case tag_getitem bs title_tag ''href'' of
             None \<Rightarrow> (Some (KeyError ''href''), pd)
           | Some link \<Rightarrow>
               (let content = find_tag bs article ''div'' [(''data-post-click-location'', ''text-body'')];
                    content_text =
                      (case content of Some c \<Rightarrow> strip (tag_text bs c) | None \<Rightarrow> ''No content'')
                in article_loop bs rest
                     (dict_set title
                        [(''link'', link),
                         (''content'', replace_char CHR 0x0A [] (rstrip content_text))]
                        pd))))"

text \<open>
  \<^verbatim>\<open>
  for title, details in posts_details.items():
      print(f"Title: {title}\nLink: {details['link']}\nContent: {details['content']}\n")
  \<close>
  One entry of the output per call of \<open>print\<close>, without the line end that \<open>print\<close>
  adds.
\<close>

fun print_loop :: "posts \<Rightarrow> string list \<Rightarrow> error option \<times> string list" where
  "print_loop [] out = (None, out)"
| "print_loop ((title, details) # rest) out =
     (case dict_get details ''link'' of
        Inl e \<Rightarrow> (Some e, out)
      | Inr l \<Rightarrow>
          (case dict_get details ''content'' of
             Inl e \<Rightarrow> (Some e, out)
           | Inr c \<Rightarrow>
               print_loop rest
                 (out @ [''Title: '' @ title @ ''\<newline>Link: '' @ l @ ''\<newline>Content: '' @ c @ ''\<newline>''])))"

text \<open>
  \<^verbatim>\<open>
  response = requests.get(url, headers=headers)
  if response.status_code == 200:
      soup = BeautifulSoup(response.text, 'html.parser')
      now = datetime.now()
      posts_details = {}
      for article in soup.find_all('article'): ...
      for title, details in posts_details.items(): ...
  else:
      print(f"Failed to retrieve the webpage: Status code {response.status_code}")
  \<close>
  One run of the cell, from the kernel state \<open>k\<close> that earlier runs left and the state
  \<open>w\<close> of the network. The result is the exception that ended the run, if any, the
  kernel state and the network state after the run. \<open>requests.get\<close> and the clock are
  parameters.
\<close>

definition scraper_cell ::
  "('soup, 'tag) bs4 \<Rightarrow> (request \<Rightarrow> ('w, response) action) \<Rightarrow> ('w \<Rightarrow> 'time) \<Rightarrow>
   ('soup, 'time) kernel \<Rightarrow> 'w \<Rightarrow> error option \<times> ('soup, 'time) kernel \<times> 'w" where
  "scraper_cell bs requests_get datetime_now k w =
     (case requests_get scraper_request w of
        (Inl e, w') \<Rightarrow> (Some e, k, w')
      | (Inr response, w') \<Rightarrow>
          (let k1 = k\<lparr>var_response := Some response\<rparr> in
           if status_code response = 200 then
             (let soup = BeautifulSoup bs (response_text response) ''html.parser'';
                  k2 = k1\<lparr>var_soup := Some soup, var_now := Some (datetime_now w'),
                          posts_details := Some []\<rparr>
              in case article_loop bs (find_all bs soup ''article'') [] of
                   (Some e, pd) \<Rightarrow> (Some e, k2\<lparr>posts_details := Some pd\<rparr>, w')
                 | (None, pd) \<Rightarrow>
                     (case print_loop pd (stdout k2) of
                        (err, out) \<Rightarrow> (err, k2\<lparr>posts_details := Some pd, stdout := out\<rparr>, w')))
           else
             (None,
              k1\<lparr>stdout := stdout k1 @
                 [''Failed to retrieve the webpage: Status code '' @ str_int (status_code response)]\<rparr>,
              w')))"

subsection \<open>The PRAW cell\<close>

text \<open>
  A node of a comment forest is a comment, with its body and, when the object has the
  attribute, its list of replies, or a \<open>praw.models.MoreComments\<close> placeholder, which
  has no body.
\<close>

datatype comment =
    Comment (body: string) (replies: "comment list option")
  | MoreComments (children: "comment list")

text \<open>\<open>"  " * depth\<close> is the empty string for a negative \<open>depth\<close>.\<close>

definition spacer_of :: "int \<Rightarrow> string" where
  "spacer_of depth = concat (replicate (nat depth) ''  '')"

definition format_line :: "int \<Rightarrow> string \<Rightarrow> string" where
  "format_line depth b = spacer_of depth @ ''- '' @ b"

text \<open>
  \<^verbatim>\<open>
  def get_comments_with_replies(comment, depth=0):
      comments_list = []
      spacer = "  " * depth
      comments_list.append(f"{spacer}- {comment.body}")
      if not hasattr(comment, "replies"):
          comment.replies = []
      for reply in comment.replies:
          if isinstance(reply, praw.models.MoreComments):
              continue
          comments_list.extend(get_comments_with_replies(reply, depth + 1))
      return comments_list
  \<close>
  The function returns the list and, beside it, the comment object as the call leaves
  it: the assignment to \<open>comment.replies\<close> stays on the object. \<open>replies_loop\<close> is the
  \<open>for\<close> loop, with \<open>comments_list\<close> as it stands on entry.

  The interpreter bounds the number of calls that are open at once. \<open>frames\<close> is the
  number of calls of the function that it still allows, this one included; a call with
  none left raises RecursionError, and the loop of a call runs with one fewer.
\<close>

fun get_comments_with_replies ::
  "nat \<Rightarrow> comment \<Rightarrow> int \<Rightarrow> error + (string list \<times> comment)"
and replies_loop ::
  "nat \<Rightarrow> comment list \<Rightarrow> int \<Rightarrow> string list \<Rightarrow> error + (string list \<times> comment list)" where
  "get_comments_with_replies 0 comment depth = Inl RecursionError"
| "get_comments_with_replies (Suc frames) (MoreComments ch) depth = Inl (AttributeError ''body'')"
| "get_comments_with_replies (Suc frames) (Comment b None) depth =
     (case replies_loop frames [] depth [format_line depth b] of
        Inl e \<Rightarrow> Inl e
      | Inr (comments_list, rs) \<Rightarrow> Inr (comments_list, Comment b (Some rs)))"
| "get_comments_with_replies (Suc frames) (Comment b (Some rs)) depth =
     (case replies_loop frames rs depth [format_line depth b] of
        Inl e \<Rightarrow> Inl e
      | Inr (comments_list, rs') \<Rightarrow> Inr (comments_list, Comment b (Some rs')))"
| "replies_loop frames [] depth comments_list = Inr (comments_list, [])"
| "replies_loop frames (MoreComments ch # rest) depth comments_list =
     (case replies_loop frames rest depth comments_list of
        Inl e \<Rightarrow> Inl e
      | Inr (comments_list', rest') \<Rightarrow> Inr (comments_list', MoreComments ch # rest'))"
| "replies_loop frames (Comment b rs # rest) depth comments_list =
     (case get_comments_with_replies frames (Comment b rs) (depth + 1) of
        Inl e \<Rightarrow> Inl e
      | Inr (lines, reply') \<Rightarrow>
          (case replies_loop frames rest depth (comments_list @ lines) of
             Inl e \<Rightarrow> Inl e
           | Inr (comments_list', rest') \<Rightarrow> Inr (comments_list', reply' # rest')))"

section \<open>personal_projects/31.ai-youtube-analysis/prompts/summarize.txt\<close>

text \<open>
  The file as it is stored, one string for each line. Lines 1 to 50 are the text of two
  prompts; lines 51 to 359 are the JSON of the Reddit scraping notebook, cell by cell.
  In the strings, \<open>CHR 0x5C\<close> is a backslash and \<open>CHR 0x27\<close> an apostrophe.
\<close>

text \<open>Lines 1 to 50: the two prompts.\<close>

definition summarize_prompt :: "string list" where
  \<open>summarize_prompt =
     [''### Purpose'',
      ''you MUST Summarize a YouTube video to capture the main topics and themes, especially related to AI and LLMs. The purpose of this summary is to allow for topic categorization based on a predefined list of topics, so make sure you include all relevant information around any frameworks, tools, or technologies discussed.'',
      [],
      ''### Instructions'',
      ''1. Read the provided title, description, and transcript of a YouTube video. Note that the transcript may not be available.'',
      ''2. Determine if the video is about AI or Large Language Models (LLMs).'',
      ''3. If the video is relevant, generate a concise summary focusing on key points and topics discussed.'',
      ''4. The summary should be detailed enough to allow for topic categorization based on a predefined list of topics.'',
      ''5. Make note if the person is sharing AI news, demonstrating a tool or technology, providing advice, discussing a framework, or discussing a company.'',
      ''6. Write the comprehensive summary in clear, professional language.'',
      ''7. Write it in 400 words or less.'',
      [],
      ''**Note**: If all provided information is insufficient to generate a summary, respond with "No summary available."'',
      [],
      ''Example Output:'',
      ''- Summary: In this video, the presenter delves into the advancements of multimodal models in AI, highlighting how combining text and images can enhance machine understanding. They discuss the implications of these models on image classification and generation, and provide examples of practical applications. The video also touches on ethical considerations and the future potential of multimodal AI systems. ...'',
      [],
      ''## Video Title'',
      ''`{title}`'',
      [],
      ''## Video Description'',
      ''`{description}`'',
      [],
      ''## Transcript'',
      ''`{transcript}`'',
      [],
      ''### Purpose'',
      ''Categorize a YouTube video summary into relevant AI and LLM topics based on a predefined list, adding new topics if necessary.'',
      [],
      ''### Instructions'',
      ''1. Read the provided summary of a YouTube video.'',
      ''2. Identify all relevant topics discussed in the summary using the predefined list below.'',
      ''3. Ensure the topics are specific and align with the subjects covered in the video.'',
      ''5. Try your hardest to stay within the predefined topics list. Don't add additional topics that aren't already listed below unless you really need to.'',
      ''6. Return a list of topics that accurately reflect the content of the summary.'',
      [],
      ''### Predefined Topics'',
      ''- `{predefined_topics}`'',
      [],
      ''### Example Output'',
      ''  - Multimodal models'',
      ''  - Image classification and generation'',
      ''  - AI Ethics '',
      [],
      ''note: `AI Ethics` is a new topic added.'',
      [],
      ''---'',
      [],
      ''### Summary:'',
      ''`{summary}`'']\<close>

text \<open>Lines 51 and 52: the notebook object opens.\<close>

definition notebook_head :: "string list" where
  \<open>notebook_head =
     [''{'',
      '' "cells": ['']\<close>

text \<open>Lines 53 to 61: a markdown cell.\<close>

definition notebook_cell_1 :: "string list" where
  \<open>notebook_cell_1 =
     [''  {'',
      ''   "cell_type": "markdown",'',
      ''   "metadata": {},'',
      ''   "source": ['',
      ''    "## 1. Scraper'' @ [CHR 0x5C] @ ''n",'',
      ''    "'' @ [CHR 0x5C] @ ''n",'',
      ''    "The purpose of this notebook is to build a webscraper for r/LocalLlama using beautiful soup"'',
      ''   ]'',
      ''  },'']\<close>

text \<open>Lines 62 to 79: a code cell.\<close>

definition notebook_cell_2 :: "string list" where
  \<open>notebook_cell_2 =
     [''  {'',
      ''   "cell_type": "code",'',
      ''   "execution_count": 3,'',
      ''   "metadata": {},'',
      ''   "outputs": [],'',
      ''   "source": ['',
      ''    "import os'' @ [CHR 0x5C] @ ''n",'',
      ''    "import datetime'' @ [CHR 0x5C] @ ''n",'',
      ''    "from time import sleep'' @ [CHR 0x5C] @ ''n",'',
      ''    "from datetime import datetime, timedelta'' @ [CHR 0x5C] @ ''n",'',
      ''    "'' @ [CHR 0x5C] @ ''n",'',
      ''    "import praw'' @ [CHR 0x5C] @ ''n",'',
      ''    "import pandas as pd'' @ [CHR 0x5C] @ ''n",'',
      ''    "from selenium import webdriver'' @ [CHR 0x5C] @ ''n",'',
      ''    "from bs4 import BeautifulSoup'' @ [CHR 0x5C] @ ''n",'',
      ''    "from dotenv import load_dotenv, find_dotenv"'',
      ''   ]'',
      ''  },'']\<close>

text \<open>Lines 80 to 88: a markdown cell.\<close>

definition notebook_cell_3 :: "string list" where
  \<open>notebook_cell_3 =
     [''  {'',
      ''   "cell_type": "markdown",'',
      ''   "metadata": {},'',
      ''   "source": ['',
      ''    "## Just using BeautiflSoup'' @ [CHR 0x5C] @ ''n",'',
      ''    "'' @ [CHR 0x5C] @ ''n",'',
      ''    "NOTE: because of the elements being dynamically named by reddit, it's extremely difficult to have consistent extraction of html elements."'',
      ''   ]'',
      ''  },'']\<close>

text \<open>Lines 89 to 133: a code cell.\<close>

definition notebook_cell_4 :: "string list" where
  \<open>notebook_cell_4 =
     [''  {'',
      ''   "cell_type": "code",'',
      ''   "execution_count": null,'',
      ''   "metadata": {},'',
      ''   "outputs": [],'',
      ''   "source": ['',
      ''    "import requests'' @ [CHR 0x5C] @ ''n",'',
      ''    "from bs4 import BeautifulSoup'' @ [CHR 0x5C] @ ''n",'',
      ''    "'' @ [CHR 0x5C] @ ''n",'',
      ''    "# Define the URL of the subreddit'' @ [CHR 0x5C] @ ''n",'',
      ''    "url = 'https://www.reddit.com/r/LocalLLaMA/hot/'' @ [CHR 0x27] @ [CHR 0x5C] @ ''n",'',
      ''    "'' @ [CHR 0x5C] @ ''n",'',
      ''    "# Add headers to mimic a real browser visit. Reddit checks for User-Agent.'' @ [CHR 0x5C] @ ''n",'',
      ''    "headers = {'' @ [CHR 0x5C] @ ''n",'',
      ''    "    'User-Agent': 'Mozilla/5.0 (Windows NT 10.0; Win64; x64) AppleWebKit/537.36 (KHTML, like Gecko) Chrome/58.0.3029.110 Safari/537.3'}'' @ [CHR 0x5C] @ ''n",'',
      ''    "'' @ [CHR 0x5C] @ ''n",'',
      ''    "response = requests.get(url, headers=headers)'' @ [CHR 0x5C] @ ''n",'',
      ''    "'' @ [CHR 0x5C] @ ''n",'',
      ''    "# Check if the request was successful'' @ [CHR 0x5C] @ ''n",'',
      ''    "if response.status_code == 200:'' @ [CHR 0x5C] @ ''n",'',
      ''    "    soup = BeautifulSoup(response.text, 'html.parser')'' @ [CHR 0x5C] @ ''n",'',
      ''    "    now = datetime.now()'' @ [CHR 0x5C] @ ''n",'',
      ''    "    posts_details = {}'' @ [CHR 0x5C] @ ''n",'',
      ''    "'' @ [CHR 0x5C] @ ''n",'',
      ''    "    # Loop through each post article'' @ [CHR 0x5C] @ ''n",'',
      ''    "    for article in soup.find_all('article'):'' @ [CHR 0x5C] @ ''n",'',
      ''    "        # Extract title'' @ [CHR 0x5C] @ ''n",'',
      ''    "        title_tag = article.find('a', {'slot': 'title'})'' @ [CHR 0x5C] @ ''n",'',
      ''    "        if title_tag:'' @ [CHR 0x5C] @ ''n",'',
      ''    "            title = title_tag.text.strip()'' @ [CHR 0x5C] @ ''n",'',
      ''    "            link = title_tag['href']'' @ [CHR 0x5C] @ ''n",'',
      ''    "'' @ [CHR 0x5C] @ ''n",'',
      ''    "            content = article.find('div', {'data-post-click-location': 'text-body'})'' @ [CHR 0x5C] @ ''n",'',
      ''    "            content_text = content.text.strip() if content else '' @ [CHR 0x5C] @ ''"No content'' @ [CHR 0x5C] @ ''"'' @ [CHR 0x5C] @ ''n",'',
      ''    "            '' @ [CHR 0x5C] @ ''n",'',
      ''    "            # Store details in dictionary'' @ [CHR 0x5C] @ ''n",'',
      ''    "            posts_details[title] = {'link': link, 'content': content_text.rstrip().replace('' @ [CHR 0x5C] @ ''"'' @ [CHR 0x5C] @ [CHR 0x5C] @ ''n'' @ [CHR 0x5C] @ ''", '' @ [CHR 0x5C] @ ''"'' @ [CHR 0x5C] @ ''")}'' @ [CHR 0x5C] @ ''n",'',
      ''    "'' @ [CHR 0x5C] @ ''n",'',
      ''    "    # Print the details of posts from the last day'' @ [CHR 0x5C] @ ''n",'',
      ''    "    for title, details in posts_details.items():'' @ [CHR 0x5C] @ ''n",'',
      ''    "        print(f'' @ [CHR 0x5C] @ ''"Title: {title}'' @ [CHR 0x5C] @ [CHR 0x5C] @ ''nLink: {details['link']}'' @ [CHR 0x5C] @ [CHR 0x5C] @ ''nContent: {details['content']}'' @ [CHR 0x5C] @ [CHR 0x5C] @ ''n'' @ [CHR 0x5C] @ ''")'' @ [CHR 0x5C] @ ''n",'',
      ''    "else:'' @ [CHR 0x5C] @ ''n",'',
      ''    "    print(f'' @ [CHR 0x5C] @ ''"Failed to retrieve the webpage: Status code {response.status_code}'' @ [CHR 0x5C] @ ''")'' @ [CHR 0x5C] @ ''n"'',
      ''   ]'',
      ''  },'']\<close>

text \<open>Lines 134 to 142: a markdown cell.\<close>

definition notebook_cell_5 :: "string list" where
  \<open>notebook_cell_5 =
     [''  {'',
      ''   "cell_type": "markdown",'',
      ''   "metadata": {},'',
      ''   "source": ['',
      ''    "## Just using BeautiflSoup and Selenium'' @ [CHR 0x5C] @ ''n",'',
      ''    "'' @ [CHR 0x5C] @ ''n",'',
      ''    "NOTE: this got me blocked because it came across as bot activity"'',
      ''   ]'',
      ''  },'']\<close>

text \<open>Lines 143 to 213: a code cell.\<close>

definition notebook_cell_6 :: "string list" where
  \<open>notebook_cell_6 =
     [''  {'',
      ''   "cell_type": "code",'',
      ''   "execution_count": null,'',
      ''   "metadata": {},'',
      ''   "outputs": [],'',
      ''   "source": ['',
      ''    "'' @ [CHR 0x5C] @ ''n",'',
      ''    "# Set up the Selenium driver (example with Chrome)'' @ [CHR 0x5C] @ ''n",'',
      ''    "options = webdriver.ChromeOptions()'' @ [CHR 0x5C] @ ''n",'',
      ''    "options.add_argument('--headless')  # Run in the background'' @ [CHR 0x5C] @ ''n",'',
      ''    "driver = webdriver.Chrome(options=options)'' @ [CHR 0x5C] @ ''n",'',
      ''    "'' @ [CHR 0x5C] @ ''n",'',
      ''    "# URL of the subreddit's new posts'' @ [CHR 0x5C] @ ''n",'',
      ''    "url = 'https://www.reddit.com/r/LocalLLaMA/hot/'' @ [CHR 0x27] @ [CHR 0x5C] @ ''n",'',
      ''    "'' @ [CHR 0x5C] @ ''n",'',
      ''    "driver.get(url)'' @ [CHR 0x5C] @ ''n",'',
      ''    "sleep(2)  # Wait for the initial page to load'' @ [CHR 0x5C] @ ''n",'',
      ''    "'' @ [CHR 0x5C] @ ''n",'',
      ''    "# Scroll down to ensure all posts from the last day are loaded'' @ [CHR 0x5C] @ ''n",'',
      ''    "# Adjust the range or conditions based on your needs'' @ [CHR 0x5C] @ ''n",'',
      ''    "for _ in range(10):  # Example: scroll 10 times'' @ [CHR 0x5C] @ ''n",'',
      ''    "    driver.execute_script('' @ [CHR 0x5C] @ ''"window.scrollTo(0, document.body.scrollHeight);'' @ [CHR 0x5C] @ ''")'' @ [CHR 0x5C] @ ''n",'',
      ''    "    sleep(2)  # Wait for more posts to load'' @ [CHR 0x5C] @ ''n",'',
      ''    "'' @ [CHR 0x5C] @ ''n",'',
      ''    "def parse_datetime(timestamp):'' @ [CHR 0x5C] @ ''n",'',
      ''    "    return datetime.strptime(timestamp, '' @ [CHR 0x5C] @ ''"%Y-%m-%dT%H:%M:%S.%f+0000'' @ [CHR 0x5C] @ ''")'' @ [CHR 0x5C] @ ''n",'',
      ''    "'' @ [CHR 0x5C] @ ''n",'',
      ''    "# Now that we have the page loaded, let's use BeautifulSoup to parse the HTML'' @ [CHR 0x5C] @ ''n",'',
      ''    "soup = BeautifulSoup(driver.page_source, 'html.parser')'' @ [CHR 0x5C] @ ''n",'',
      ''    "'' @ [CHR 0x5C] @ ''n",'',
      ''    "print(soup.title.text)'' @ [CHR 0x5C] @ ''n",'',
      ''    "posts = soup.find_all('article')'' @ [CHR 0x5C] @ ''n",'',
      ''    "print(f'' @ [CHR 0x5C] @ ''"Found {len(posts)} posts on the page.'' @ [CHR 0x5C] @ ''")'' @ [CHR 0x5C] @ ''n",'',
      ''    "'' @ [CHR 0x5C] @ ''n",'',
      ''    "# If posts are found, attempt to print the first post's HTML'' @ [CHR 0x5C] @ ''n",'',
      ''    "if posts:'' @ [CHR 0x5C] @ ''n",'',
      ''    "    print(posts[0].prettify())'' @ [CHR 0x5C] @ ''n",'',
      ''    "'' @ [CHR 0x5C] @ ''n",'',
      ''    "# Close the Selenium browser'' @ [CHR 0x5C] @ ''n",'',
      ''    "driver.quit()'' @ [CHR 0x5C] @ ''n",'',
      ''    "now = datetime.now()'' @ [CHR 0x5C] @ ''n",'',
      ''    "'' @ [CHR 0x5C] @ ''n",'',
      ''    "# Dictionary to hold post details'' @ [CHR 0x5C] @ ''n",'',
      ''    "posts_details = {}'' @ [CHR 0x5C] @ ''n",'',
      ''    "'' @ [CHR 0x5C] @ ''n",'',
      ''    "# Loop through each post article'' @ [CHR 0x5C] @ ''n",'',
      ''    "for article in soup.find_all('article'):'' @ [CHR 0x5C] @ ''n",'',
      ''    "    # Extract title'' @ [CHR 0x5C] @ ''n",'',
      ''    "    title_tag = article.find('a', {'slot': 'title'})'' @ [CHR 0x5C] @ ''n",'',
      ''    "    if title_tag:'' @ [CHR 0x5C] @ ''n",'',
      ''    "        title = title_tag.text.strip()'' @ [CHR 0x5C] @ ''n",'',
      ''    "        link = title_tag['href']'' @ [CHR 0x5C] @ ''n",'',
      ''    "        '' @ [CHR 0x5C] @ ''n",'',
      ''    "        # Extract timestamp'' @ [CHR 0x5C] @ ''n",'',
      ''    "        timestamp_tag = article.find('faceplate-timeago')'' @ [CHR 0x5C] @ ''n",'',
      ''    "        if timestamp_tag:'' @ [CHR 0x5C] @ ''n",'',
      ''    "            post_datetime = parse_datetime(timestamp_tag['ts'])'' @ [CHR 0x5C] @ ''n",'',
      ''    "            # Check if the post is from the last day'' @ [CHR 0x5C] @ ''n",'',
      ''    "            if now - post_datetime <= timedelta(days=1):'' @ [CHR 0x5C] @ ''n",'',
      ''    "                # Extract content if available'' @ [CHR 0x5C] @ ''n",'',
      ''    "                content = article.find('div', {'data-post-click-location': 'text-body'})'' @ [CHR 0x5C] @ ''n",'',
      ''    "                content_text = content.text.strip() if content else '' @ [CHR 0x5C] @ ''"No content'' @ [CHR 0x5C] @ ''"'' @ [CHR 0x5C] @ ''n",'',
      ''    "                '' @ [CHR 0x5C] @ ''n",'',
      ''    "                # Store details in dictionary'' @ [CHR 0x5C] @ ''n",'',
      ''    "                posts_details[title] = {'link': link, 'content': content_text}'' @ [CHR 0x5C] @ ''n",'',
      ''    "'' @ [CHR 0x5C] @ ''n",'',
      ''    "# Print the details of posts from the last day'' @ [CHR 0x5C] @ ''n",'',
      ''    "for title, details in posts_details.items():'' @ [CHR 0x5C] @ ''n",'',
      ''    "    print(f'' @ [CHR 0x5C] @ ''"Title: {title}'' @ [CHR 0x5C] @ [CHR 0x5C] @ ''nLink: {details['link']}'' @ [CHR 0x5C] @ [CHR 0x5C] @ ''nContent: {details['content']}'' @ [CHR 0x5C] @ [CHR 0x5C] @ ''n'' @ [CHR 0x5C] @ ''")"'',
      ''   ]'',
      ''  },'']\<close>

text \<open>Lines 214 to 222: a code cell.\<close>

definition notebook_cell_7 :: "string list" where
  \<open>notebook_cell_7 =
     [''  {'',
      ''   "cell_type": "code",'',
      ''   "execution_count": null,'',
      ''   "metadata": {},'',
      ''   "outputs": [],'',
      ''   "source": ['',
      ''    "posts_details"'',
      ''   ]'',
      ''  },'']\<close>

text \<open>Lines 223 to 237: a markdown cell.\<close>

definition notebook_cell_8 :: "string list" where
  \<open>notebook_cell_8 =
     [''  {'',
      ''   "cell_type": "markdown",'',
      ''   "metadata": {},'',
      ''   "source": ['',
      ''    "### PRAW For Reddit'' @ [CHR 0x5C] @ ''n",'',
      ''    "'' @ [CHR 0x5C] @ ''n",'',
      ''    "1. Go to https://www.reddit.com/prefs/apps'' @ [CHR 0x5C] @ ''n",'',
      ''    "2. Click '' @ [CHR 0x5C] @ ''"create app'' @ [CHR 0x5C] @ ''" or '' @ [CHR 0x5C] @ ''"create another app'' @ [CHR 0x5C] @ ''"'' @ [CHR 0x5C] @ ''n",'',
      ''    "3. Fill out the form:'' @ [CHR 0x5C] @ ''n",'',
      ''    "    - name: Give your app a name.'' @ [CHR 0x5C] @ ''n",'',
      ''    "    - application type: Select '' @ [CHR 0x5C] @ ''"script'' @ [CHR 0x5C] @ ''".'' @ [CHR 0x5C] @ ''n",'',
      ''    "    - redirect uri: Use http://localhost:8080 or a similar placeholder.'' @ [CHR 0x5C] @ ''n",'',
      ''    "4. After creation, note down the `client_id` (just under the app name) and `client_secret`."'',
      ''   ]'',
      ''  },'']\<close>

text \<open>Lines 238 to 242: a markdown cell.\<close>

definition notebook_cell_9 :: "string list" where
  \<open>notebook_cell_9 =
     [''  {'',
      ''   "cell_type": "markdown",'',
      ''   "metadata": {},'',
      ''   "source": []'',
      ''  },'']\<close>

text \<open>Lines 243 to 262: a code cell.\<close>

definition notebook_cell_10 :: "string list" where
  \<open>notebook_cell_10 =
     [''  {'',
      ''   "cell_type": "code",'',
      ''   "execution_count": 16,'',
      ''   "metadata": {},'',
      ''   "outputs": ['',
      ''    {'',
      ''     "data": {'',
      ''      "text/plain": ['',
      ''       "True"'',
      ''      ]'',
      ''     },'',
      ''     "execution_count": 16,'',
      ''     "metadata": {},'',
      ''     "output_type": "execute_result"'',
      ''    }'',
      ''   ],'',
      ''   "source": ['',
      ''    "load_dotenv('' @ [CHR 0x5C] @ ''"../../../.env'' @ [CHR 0x5C] @ ''")"'',
      ''   ]'',
      ''  },'']\<close>

text \<open>Lines 263 to 275: a code cell.\<close>

definition notebook_cell_11 :: "string list" where
  \<open>notebook_cell_11 =
     [''  {'',
      ''   "cell_type": "code",'',
      ''   "execution_count": 19,'',
      ''   "metadata": {},'',
      ''   "outputs": [],'',
      ''   "source": ['',
      ''    "reddit = praw.Reddit('' @ [CHR 0x5C] @ ''n",'',
      ''    "    user_agent=f'' @ [CHR 0x5C] @ ''"Comment Extraction (by u/{os.environ.get('REDDIT_USERNAME')})'' @ [CHR 0x5C] @ ''",'' @ [CHR 0x5C] @ ''n",'',
      ''    "    client_id= os.environ.get('' @ [CHR 0x5C] @ ''"REDDIT_APP'' @ [CHR 0x5C] @ ''"),'' @ [CHR 0x5C] @ ''n",'',
      ''    "    client_secret= os.environ.get('' @ [CHR 0x5C] @ ''"REDDIT_SECRET'' @ [CHR 0x5C] @ ''")'' @ [CHR 0x5C] @ ''n",'',
      ''    ")'' @ [CHR 0x5C] @ ''n"'',
      ''   ]'',
      ''  },'']\<close>

text \<open>Lines 276 to 316: a code cell.\<close>

definition notebook_cell_12 :: "string list" where
  \<open>notebook_cell_12 =
     [''  {'',
      ''   "cell_type": "code",'',
      ''   "execution_count": 68,'',
      ''   "metadata": {},'',
      ''   "outputs": [],'',
      ''   "source": ['',
      ''    "subreddit = reddit.subreddit('' @ [CHR 0x5C] @ ''"LocalLLaMA'' @ [CHR 0x5C] @ ''")'' @ [CHR 0x5C] @ ''n",'',
      ''    "new_posts = subreddit.new(limit=1000)  # Adjust limit as needed'' @ [CHR 0x5C] @ ''n",'',
      ''    "'' @ [CHR 0x5C] @ ''n",'',
      ''    "posts_data = {}'' @ [CHR 0x5C] @ ''n",'',
      ''    "'' @ [CHR 0x5C] @ ''n",'',
      ''    "def get_comments_with_replies(comment, depth=0):'' @ [CHR 0x5C] @ ''n",'',
      ''    "    '' @ [CHR 0x5C] @ ''"'' @ [CHR 0x5C] @ ''"'' @ [CHR 0x5C] @ ''"Recursively get comments and their nested replies.'' @ [CHR 0x5C] @ ''"'' @ [CHR 0x5C] @ ''"'' @ [CHR 0x5C] @ ''"'' @ [CHR 0x5C] @ ''n",'',
      ''    "    comments_list = []'' @ [CHR 0x5C] @ ''n",'',
      ''    "    spacer = '' @ [CHR 0x5C] @ ''"  '' @ [CHR 0x5C] @ ''" * depth  # Indentation for nested comments'' @ [CHR 0x5C] @ ''n",'',
      ''    "    comments_list.append(f'' @ [CHR 0x5C] @ ''"{spacer}- {comment.body}'' @ [CHR 0x5C] @ ''")'' @ [CHR 0x5C] @ ''n",'',
      ''    "    if not hasattr(comment, '' @ [CHR 0x5C] @ ''"replies'' @ [CHR 0x5C] @ ''"):'' @ [CHR 0x5C] @ ''n",'',
      ''    "        comment.replies = []'' @ [CHR 0x5C] @ ''n",'',
      ''    "    for reply in comment.replies:'' @ [CHR 0x5C] @ ''n",'',
      ''    "        if isinstance(reply, praw.models.MoreComments):'' @ [CHR 0x5C] @ ''n",'',
      ''    "            continue'' @ [CHR 0x5C] @ ''n",'',
      ''    "        comments_list.extend(get_comments_with_replies(reply, depth + 1))'' @ [CHR 0x5C] @ ''n",'',
      ''    "    return comments_list'' @ [CHR 0x5C] @ ''n",'',
      ''    "'' @ [CHR 0x5C] @ ''n",'',
      ''    "'' @ [CHR 0x5C] @ ''n",'',
      ''    "for post in new_posts:'' @ [CHR 0x5C] @ ''n",'',
      ''    "    post.comments.replace_more(limit=0)  # Load all comments; limit=0 to fully expand the comment tree'' @ [CHR 0x5C] @ ''n",'',
      ''    "    comments = []'' @ [CHR 0x5C] @ ''n",'',
      ''    "    for top_level_comment in post.comments:'' @ [CHR 0x5C] @ ''n",'',
      ''    "        comments.extend(get_comments_with_replies(top_level_comment))'' @ [CHR 0x5C] @ ''n",'',
      ''    "'' @ [CHR 0x5C] @ ''n",'',
      ''    "    posts_data[post.id] = {'' @ [CHR 0x5C] @ ''n",'',
      ''    "        '' @ [CHR 0x5C] @ ''"title'' @ [CHR 0x5C] @ ''": post.title,'' @ [CHR 0x5C] @ ''n",'',
      ''    "        '' @ [CHR 0x5C] @ ''"content'' @ [CHR 0x5C] @ ''": post.selftext,'' @ [CHR 0x5C] @ ''n",'',
      ''    "        '' @ [CHR 0x5C] @ ''"comments'' @ [CHR 0x5C] @ ''": comments,'' @ [CHR 0x5C] @ ''n",'',
      ''    "        '' @ [CHR 0x5C] @ ''"link'' @ [CHR 0x5C] @ ''": post.shortlink,'' @ [CHR 0x5C] @ ''n",'',
      ''    "        '' @ [CHR 0x5C] @ ''"flair'' @ [CHR 0x5C] @ ''": post.flair, '' @ [CHR 0x5C] @ ''n",'',
      ''    "        '' @ [CHR 0x5C] @ ''"media'' @ [CHR 0x5C] @ ''": post.media,'' @ [CHR 0x5C] @ ''n",'',
      ''    "    }"'',
      ''   ]'',
      ''  },'']\<close>

text \<open>Lines 317 to 336: a code cell.\<close>

definition notebook_cell_13 :: "string list" where
  \<open>notebook_cell_13 =
     [''  {'',
      ''   "cell_type": "code",'',
      ''   "execution_count": 110,'',
      ''   "metadata": {},'',
      ''   "outputs": [],'',
      ''   "source": ['',
      ''    "with open(f'' @ [CHR 0x5C] @ ''"./_output/new/localllama-new-{datetime.now().strftime('%d-%m-%Y')}.txt'' @ [CHR 0x5C] @ ''", '' @ [CHR 0x5C] @ ''"w'' @ [CHR 0x5C] @ ''") as file:'' @ [CHR 0x5C] @ ''n",'',
      ''    "    # Print the scraped data'' @ [CHR 0x5C] @ ''n",'',
      ''    "    for post_id, post_info in posts_data.items():'' @ [CHR 0x5C] @ ''n",'',
      ''    "        file.writelines(f'' @ [CHR 0x5C] @ ''"Post ID: {post_id}'' @ [CHR 0x5C] @ [CHR 0x5C] @ ''n'' @ [CHR 0x5C] @ ''")'' @ [CHR 0x5C] @ ''n",'',
      ''    "        file.writelines(f'' @ [CHR 0x5C] @ ''"Title: {post_info['title']}'' @ [CHR 0x5C] @ [CHR 0x5C] @ ''n'' @ [CHR 0x5C] @ ''")'' @ [CHR 0x5C] @ ''n",'',
      ''    "        file.writelines(f'' @ [CHR 0x5C] @ ''"Link: {post_info['link']}'' @ [CHR 0x5C] @ [CHR 0x5C] @ ''n'' @ [CHR 0x5C] @ ''")'' @ [CHR 0x5C] @ ''n",'',
      ''    "        file.writelines(f'' @ [CHR 0x5C] @ ''"Content: {post_info['content']}'' @ [CHR 0x5C] @ [CHR 0x5C] @ ''n'' @ [CHR 0x5C] @ ''")'' @ [CHR 0x5C] @ ''n",'',
      ''    "        if len(post_info['comments']) > 0:'' @ [CHR 0x5C] @ ''n",'',
      ''    "            file.writelines('' @ [CHR 0x5C] @ ''"Comments:'' @ [CHR 0x5C] @ [CHR 0x5C] @ ''n'' @ [CHR 0x5C] @ ''")'' @ [CHR 0x5C] @ ''n",'',
      ''    "            for comment in post_info['comments']:'' @ [CHR 0x5C] @ ''n",'',
      ''    "                file.writelines(comment + '' @ [CHR 0x5C] @ ''"'' @ [CHR 0x5C] @ [CHR 0x5C] @ ''n'' @ [CHR 0x5C] @ ''")  # Comments are already formatted with spacers for nesting'' @ [CHR 0x5C] @ ''n",'',
      ''    "        file.writelines('' @ [CHR 0x5C] @ ''"'' @ [CHR 0x5C] @ [CHR 0x5C] @ ''n---'' @ [CHR 0x5C] @ [CHR 0x5C] @ ''n'' @ [CHR 0x5C] @ ''")"'',
      ''   ]'',
      ''  }'']\<close>

text \<open>Lines 337 to 359: the notebook metadata.\<close>

definition notebook_tail :: "string list" where
  \<open>notebook_tail =
     ['' ],'',
      '' "metadata": {'',
      ''  "kernelspec": {'',
      ''   "display_name": "masterclass",'',
      ''   "language": "python",'',
      ''   "name": "python3"'',
      ''  },'',
      ''  "language_info": {'',
      ''   "codemirror_mode": {'',
      ''    "name": "ipython",'',
      ''    "version": 3'',
      ''   },'',
      ''   "file_extension": ".py",'',
      ''   "mimetype": "text/x-python",'',
      ''   "name": "python",'',
      ''   "nbconvert_exporter": "python",'',
      ''   "pygments_lexer": "ipython3",'',
      ''   "version": "3.10.12"'',
      ''  }'',
      '' },'',
      '' "nbformat": 4,'',
      '' "nbformat_minor": 2'',
      ''}'']\<close>

text \<open>The file, line by line; its last line has no line end.\<close>

definition summarize_txt :: "string list" where
  "summarize_txt =
     summarize_prompt @ notebook_head @
     notebook_cell_1 @ notebook_cell_2 @ notebook_cell_3 @
     notebook_cell_4 @ notebook_cell_5 @ notebook_cell_6 @
     notebook_cell_7 @ notebook_cell_8 @ notebook_cell_9 @
     notebook_cell_10 @ notebook_cell_11 @ notebook_cell_12 @
     notebook_cell_13 @
     notebook_tail"

text \<open>The line that opens a code cell in the JSON of a notebook.\<close>

definition is_code_cell_line :: "string \<Rightarrow> bool" where
  \<open>is_code_cell_line l = (l = ''   "cell_type": "code",'')\<close>

text \<open>
  The replacement fields of a text: what stands between an opening brace and the next
  closing brace.
\<close>

fun scan_fields :: "string option \<Rightarrow> string \<Rightarrow> string list" where
  "scan_fields st [] = []"
| "scan_fields None (c # cs) =
     (if c = CHR ''{'' then scan_fields (Some []) cs else scan_fields None cs)"
| "scan_fields (Some acc) (c # cs) =
     (if c = CHR ''}'' then rev acc # scan_fields None cs else scan_fields (Some (c # acc)) cs)"

definition brace_fields :: "string \<Rightarrow> string list" where
  "brace_fields s = scan_fields None s"

section \<open>The stated properties as definitions\<close>

subsection \<open>Records of the BeautifulSoup cell\<close>

text \<open>
  The record that an article contributes according to the specification: keyed by the
  stripped title text, with the field \<open>link\<close> holding the title tag's href and the field
  \<open>content\<close> holding the stripped text of the text-body div, or \<open>No content\<close>.
\<close>

definition claimed_record :: "('soup, 'tag) bs4 \<Rightarrow> 'tag \<Rightarrow> (string \<times> details) option" where
  "claimed_record bs article =
     (case find_tag bs article ''a'' [(''slot'', ''title'')] of
        None \<Rightarrow> None
      | Some title_tag \<Rightarrow>
          (case tag_getitem bs title_tag ''href'' of
             None \<Rightarrow> None
           | Some link \<Rightarrow>
               Some (strip (tag_text bs title_tag),
                     [(''link'', link),
                      (''content'',
                       (case find_tag bs article ''div'' [(''data-post-click-location'', ''text-body'')] of
                          Some c \<Rightarrow> strip (tag_text bs c)
                        | None \<Rightarrow> ''No content''))])))"

text \<open>The specification's statement: every article with a title link has its record in the dictionary.\<close>

definition claimed_posts :: "('soup, 'tag) bs4 \<Rightarrow> 'tag list \<Rightarrow> posts \<Rightarrow> bool" where
  "claimed_posts bs articles pd =
     list_all (\<lambda>article. case claimed_record bs article of
                            None \<Rightarrow> True
                          | Some (title, d) \<Rightarrow> map_of pd title = Some d) articles"

text \<open>
  The amended record: as above, with every line feed removed from the stripped text of
  the text-body div.
\<close>

definition flattened_record :: "('soup, 'tag) bs4 \<Rightarrow> 'tag \<Rightarrow> (string \<times> details) option" where
  "flattened_record bs article =
     (case find_tag bs article ''a'' [(''slot'', ''title'')] of
        None \<Rightarrow> None
      | Some title_tag \<Rightarrow>
          (case tag_getitem bs title_tag ''href'' of
             None \<Rightarrow> None
           | Some link \<Rightarrow>
               Some (strip (tag_text bs title_tag),
                     [(''link'', link),
                      (''content'',
                       (case find_tag bs article ''div'' [(''data-post-click-location'', ''text-body'')] of
                          Some c \<Rightarrow> replace_char CHR 0x0A [] (strip (tag_text bs c))
                        | None \<Rightarrow> ''No content''))])))"

text \<open>The amended record of the last article, in document order, that carries the title.\<close>

fun last_record :: "('soup, 'tag) bs4 \<Rightarrow> 'tag list \<Rightarrow> string \<Rightarrow> details option" where
  "last_record bs [] title = None"
| "last_record bs (article # rest) title =
     (case last_record bs rest title of
        Some d \<Rightarrow> Some d
      | None \<Rightarrow>
          (case flattened_record bs article of
             None \<Rightarrow> None
           | Some (t, d) \<Rightarrow> if t = title then Some d else None))"

text \<open>An article whose title link, if it has one, carries an href.\<close>

definition has_href :: "('soup, 'tag) bs4 \<Rightarrow> 'tag \<Rightarrow> bool" where
  "has_href bs article =
     (case find_tag bs article ''a'' [(''slot'', ''title'')] of
        None \<Rightarrow> True
      | Some title_tag \<Rightarrow> tag_getitem bs title_tag ''href'' \<noteq> None)"

text \<open>Every value of the dictionary has exactly the fields \<open>link\<close> and \<open>content\<close>, in this order.\<close>

definition two_fields :: "posts \<Rightarrow> bool" where
  "two_fields pd = list_all (\<lambda>(title, d). map fst d = [''link'', ''content'']) pd"

subsection \<open>Lines of the comment walk\<close>

text \<open>
  The comments reached from a comment in depth-first order, each with its nesting level
  below the start; a MoreComments node contributes nothing, nor does anything under it,
  and a comment without the \<open>replies\<close> attribute has no replies.
\<close>

fun spec_reached :: "comment \<Rightarrow> nat \<Rightarrow> (nat \<times> string) list" where
  "spec_reached (MoreComments ch) level = []"
| "spec_reached (Comment b None) level = [(level, b)]"
| "spec_reached (Comment b (Some rs)) level =
     (level, b) # concat (map (\<lambda>r. spec_reached r (Suc level)) rs)"

text \<open>
  The line of a comment: two spaces for each nesting level, the start being at level
  \<open>start\<close>, then \<open>- \<close>, then the body.
\<close>

definition spec_line :: "int \<Rightarrow> nat \<times> string \<Rightarrow> string" where
  "spec_line start = (\<lambda>(level, b). replicate (2 * (nat start + level)) CHR '' '' @ ''- '' @ b)"

text \<open>
  The comment object after the call: every comment reached has a \<open>replies\<close> attribute,
  empty where there was none.
\<close>

fun after_call :: "comment \<Rightarrow> comment" where
  "after_call (MoreComments ch) = MoreComments ch"
| "after_call (Comment b None) = Comment b (Some [])"
| "after_call (Comment b (Some rs)) = Comment b (Some (map after_call rs))"

text \<open>
  The nesting of a comment: the number of calls that are open at once when the walk is
  at its deepest. Nothing below a MoreComments node is walked.
\<close>

fun nesting :: "comment \<Rightarrow> nat" where
  "nesting (MoreComments ch) = 0"
| "nesting (Comment b None) = 1"
| "nesting (Comment b (Some rs)) = Suc (foldr max (map nesting rs) 0)"

section \<open>Concrete inputs\<close>

subsection \<open>A document tree standing for the library\<close>

text \<open>
  One instance of the library's operations, over documents given as trees: \<open>find_all\<close>
  and \<open>find\<close> search the descendants in document order, \<open>text\<close> joins the strings below a
  tag. The parser is a parameter of the instance.
\<close>

datatype node =
    Element (tag_name: string) (attrs: "(string \<times> string) list") (contents: "node list")
  | NavigableString string

fun descendants :: "node \<Rightarrow> node list" where
  "descendants (NavigableString s) = []"
| "descendants (Element n a cs) = concat (map (\<lambda>c. c # descendants c) cs)"

fun get_text :: "node \<Rightarrow> string" where
  "get_text (NavigableString s) = s"
| "get_text (Element n a cs) = concat (map get_text cs)"

fun node_matches :: "string \<Rightarrow> (string \<times> string) list \<Rightarrow> node \<Rightarrow> bool" where
  "node_matches name want (NavigableString s) = False"
| "node_matches name want (Element n a cs) =
     (n = name \<and> list_all (\<lambda>(key, v). map_of a key = Some v) want)"

fun node_getitem :: "node \<Rightarrow> string \<Rightarrow> string option" where
  "node_getitem (NavigableString s) key = None"
| "node_getitem (Element n a cs) key = map_of a key"

definition tree_bs4 :: "(string \<Rightarrow> node list) \<Rightarrow> (node list, node) bs4" where
  "tree_bs4 parser =
     \<lparr>BeautifulSoup = (\<lambda>markup features. parser markup),
      find_all = (\<lambda>soup name. filter (node_matches name []) (concat (map (\<lambda>c. c # descendants c) soup))),
      find_tag = (\<lambda>tag name want. List.find (node_matches name want) (descendants tag)),
      tag_text = get_text,
      tag_getitem = node_getitem\<rparr>"

subsection \<open>Two pages and three responses\<close>

definition page_markup :: string where
  \<open>page_markup =
     ''<article><a slot="title" href="/r/1"> Hello </a><div data-post-click-location="text-body">a\<newline>b</div></article>''\<close>

definition page_tree :: "node list" where
  "page_tree =
     [Element ''article'' []
        [Element ''a'' [(''slot'', ''title''), (''href'', ''/r/1'')] [NavigableString '' Hello ''],
         Element ''div'' [(''data-post-click-location'', ''text-body'')]
           [NavigableString ''a\<newline>b'']]]"

definition twin_markup :: string where
  \<open>twin_markup =
     ''<article><a slot="title" href="/r/1">Same</a></article><article><a slot="title" href="/r/2">Same</a></article>''\<close>

definition twin_tree :: "node list" where
  "twin_tree =
     [Element ''article'' []
        [Element ''a'' [(''slot'', ''title''), (''href'', ''/r/1'')] [NavigableString ''Same'']],
      Element ''article'' []
        [Element ''a'' [(''slot'', ''title''), (''href'', ''/r/2'')] [NavigableString ''Same'']]]"

text \<open>A parser that knows the two pages.\<close>

definition page_parser :: "string \<Rightarrow> node list" where
  "page_parser markup =
     (if markup = page_markup then page_tree
      else if markup = twin_markup then twin_tree
      else [])"

text \<open>A network that answers every request with the same response.\<close>

definition serve :: "response \<Rightarrow> request \<Rightarrow> (unit, response) action" where
  "serve r req w = (Inr r, w)"

definition ok_page :: response where
  "ok_page = \<lparr>status_code = 200, response_text = page_markup\<rparr>"

definition ok_twins :: response where
  "ok_twins = \<lparr>status_code = 200, response_text = twin_markup\<rparr>"

definition too_many :: response where
  "too_many = \<lparr>status_code = 429, response_text = ''Too Many Requests''\<rparr>"

text \<open>A clock that shows the same time whenever it is read.\<close>

definition clock_at :: "nat \<Rightarrow> 'w \<Rightarrow> nat" where
  "clock_at t w = t"

text \<open>A kernel in which an earlier run has left records and output.\<close>

definition stale_kernel :: "(node list, nat) kernel" where
  "stale_kernel =
     \<lparr>var_response = Some too_many, var_soup = Some twin_tree, var_now = Some 7,
      posts_details = Some [(''Old'', [(''link'', ''/r/0''), (''content'', ''stale'')])],
      stdout = [''Title: Old\<newline>Link: /r/0\<newline>Content: stale\<newline>'']\<rparr>"

subsection \<open>A comment tree\<close>

definition thread :: comment where
  "thread =
     Comment ''a''
       (Some [Comment ''b'' None,
              MoreComments [Comment ''x'' None],
              Comment ''c'' (Some [Comment ''d'' (Some [])])])"

text \<open>A comment with a chain of \<open>n\<close> replies below it, each the only reply of the one above.\<close>

fun chain :: "nat \<Rightarrow> comment" where
  "chain 0 = Comment ''reply'' (Some [])"
| "chain (Suc n) = Comment ''reply'' (Some [chain n])"

section \<open>Properties of example3.ipynb\<close>

lemma bind_action_returns: "bind_action m (\<lambda>x. returns x) = m"
proof
  fix w
  show "bind_action m (\<lambda>x. returns x) w = m w"
    by (cases "m w") (auto simp: bind_action_def returns_def split: sum.splits)
qed

text \<open>
  C1. Each flow is the framework's decorator applied to a function that hands one task
  to \<open>cf.run\<close> and returns what \<open>cf.run\<close> produced, value or exception, with the world
  as \<open>cf.run\<close> left it: nothing authored stands between the framework's result and the
  caller. Under a decorator that calls the function as it is, the log of an observed
  \<open>cf.run\<close> grows by exactly one entry, the flow's task.
\<close>

theorem flows_return_cf_run_result:
  "review_code cf_flow cf_run = cf_flow (\<lambda>code. cf_run (review_task code)) \<and>
   check_even_number cf_flow' cf_run' = cf_flow' (\<lambda>n. cf_run' (check_task n)) \<and>
   review_code (\<lambda>f. f) (logged run) code (w, log) =
     (fst (run (review_task code) w),
      (snd (run (review_task code) w), log @ [review_task code])) \<and>
   check_even_number (\<lambda>f. f) (logged run') n (w', log') =
     (fst (run' (check_task n) w'),
      (snd (run' (check_task n) w'), log' @ [check_task n]))"
  by (simp add: review_code_def check_even_number_def bind_action_returns logged_def
      split: prod.splits)

text \<open>
  C2. \<open>validate_even\<close> raises ValueError exactly when the number is odd, and returns its
  argument itself when the number is even; it has no other outcome.
\<close>

theorem validate_even_iff_odd:
  "((\<exists>msg. validate_even r = Inl (ValueError msg)) \<longleftrightarrow> number r mod 2 \<noteq> 0) \<and>
   (number r mod 2 = 0 \<longrightarrow> validate_even r = Inr r) \<and>
   (validate_even r = Inr r \<or> validate_even r = Inl (ValueError ''The number must be even.''))"
  by (simp add: validate_even_def)

theorem validate_even_iff_odd_witness:
  "number \<lparr>number = 4\<rparr> mod 2 = 0 \<and> validate_even \<lparr>number = 4\<rparr> = Inr \<lparr>number = 4\<rparr> \<and>
   number \<lparr>number = 5\<rparr> mod 2 \<noteq> 0 \<and> (\<exists>msg. validate_even \<lparr>number = 5\<rparr> = Inl (ValueError msg))"
  using validate_even_iff_odd [of "\<lparr>number = 4\<rparr>"] validate_even_iff_odd [of "\<lparr>number = 5\<rparr>"]
  by simp

text \<open>
  C6. \<open>approve_code\<close> returns the same approved review whatever its argument;
  \<open>reject_code\<close> returns a rejected review carrying the issues it was given; in both
  results the approval flag says whether the status is \<open>approved\<close>.
\<close>

theorem review_tools_outputs:
  "approve_code x =
     \<lparr>status = ''approved'', issues = [],
      suggestions = [''Code meets all quality standards''], approval = True\<rparr> \<and>
   status (reject_code is) = ''rejected'' \<and>
   issues (reject_code is) = is \<and>
   suggestions (reject_code is) = [] \<and>
   approval (reject_code is) = False \<and>
   approval (approve_code x) = (status (approve_code x) = ''approved'') \<and>
   approval (reject_code is) = (status (reject_code is) = ''approved'')"
  by (simp add: approve_code_def reject_code_def)


section \<open>Properties of the BeautifulSoup cell\<close>

lemma map_of_dict_set: "map_of (dict_set k v d) = (map_of d)(k \<mapsto> v)"
  by (induction d) (auto simp: fun_eq_iff)

lemma two_fields_dict_set:
  "two_fields pd \<Longrightarrow> map fst d = [''link'', ''content''] \<Longrightarrow> two_fields (dict_set k d pd)"
  by (induction pd) (auto simp: two_fields_def)

lemma rstrip_strip: "rstrip (strip s) = strip s"
  by (simp add: strip_def rstrip_def dropWhile_idem)

lemma rstrip_No_content: "rstrip ''No content'' = ''No content''"
  by (simp add: rstrip_def isspace_def)

lemma replace_No_content: "replace_char CHR 0x0A [] ''No content'' = ''No content''"
  by (simp add: replace_char_def)

text \<open>
  The loop, when no title link lacks its href: it ends without an exception, and under
  each title the dictionary holds the record of the last article with that title, or
  what it held before the loop when no article has the title.
\<close>

lemma article_loop_records:
  "list_all (has_href bs) articles \<Longrightarrow>
     fst (article_loop bs articles pd) = None \<and>
     map_of (snd (article_loop bs articles pd)) title =
       (case last_record bs articles title of Some d \<Rightarrow> Some d | None \<Rightarrow> map_of pd title) \<and>
     (two_fields pd \<longrightarrow> two_fields (snd (article_loop bs articles pd)))"
proof (induction articles arbitrary: pd)
  case Nil
  then show ?case by simp
next
  case (Cons article rest)
  then have rest: "list_all (has_href bs) rest" and here: "has_href bs article" by simp_all
  note IH = Cons.IH [OF rest]
  show ?case
  proof (cases "find_tag bs article ''a'' [(''slot'', ''title'')]")
    case None
    then show ?thesis using IH [of pd]
      by (simp add: flattened_record_def split: option.splits)
  next
    case (Some title_tag)
    with here obtain link where link: "tag_getitem bs title_tag ''href'' = Some link"
      by (auto simp: has_href_def)
    show ?thesis
    proof (cases "find_tag bs article ''div'' [(''data-post-click-location'', ''text-body'')]")
      case None
      then show ?thesis
        using Some link
          IH [of "dict_set (strip (tag_text bs title_tag)) [(''link'', link), (''content'', ''No content'')] pd"]
        by (simp add: flattened_record_def map_of_dict_set two_fields_dict_set
            rstrip_No_content replace_No_content split: option.splits)
    next
      case (Some c)
      then show ?thesis
        using \<open>find_tag bs article ''a'' [(''slot'', ''title'')] = Some title_tag\<close> link
          IH [of "dict_set (strip (tag_text bs title_tag))
                    [(''link'', link), (''content'', replace_char CHR 0x0A [] (strip (tag_text bs c)))] pd"]
        by (simp add: flattened_record_def map_of_dict_set two_fields_dict_set rstrip_strip
            split: option.splits)
    qed
  qed
qed

lemma article_loop_two_fields:
  "two_fields pd \<Longrightarrow> two_fields (snd (article_loop bs articles pd))"
  by (induction articles arbitrary: pd)
     (auto simp: two_fields_dict_set Let_def split: option.splits)

lemma print_loop_two_fields: "two_fields pd \<Longrightarrow> fst (print_loop pd out) = None"
proof (induction pd arbitrary: out)
  case Nil
  then show ?case by simp
next
  case (Cons p pd)
  obtain title d where p: "p = (title, d)" by (cases p)
  with Cons.prems obtain l c where d: "d = [(''link'', l), (''content'', c)]"
    by (auto simp: two_fields_def map_eq_Cons_conv)
  from Cons.prems have "two_fields pd" by (simp add: two_fields_def)
  then show ?case using Cons.IH p d by (simp add: dict_get_def)
qed

lemma last_record_present:
  "article \<in> set articles \<Longrightarrow> flattened_record bs article = Some (title, d) \<Longrightarrow>
   \<exists>d'. last_record bs articles title = Some d'"
  by (induction articles) (auto split: option.splits)

subsection \<open>The cell on the concrete pages\<close>

lemma page_markup_neq: "twin_markup \<noteq> page_markup"
  by (simp add: twin_markup_def page_markup_def)

lemma page_articles:
  "find_all (tree_bs4 page_parser)
     (BeautifulSoup (tree_bs4 page_parser) page_markup ''html.parser'') ''article'' = page_tree"
  by (simp add: tree_bs4_def page_parser_def page_tree_def)

lemma twin_articles:
  "find_all (tree_bs4 page_parser)
     (BeautifulSoup (tree_bs4 page_parser) twin_markup ''html.parser'') ''article'' = twin_tree"
  by (simp add: tree_bs4_def page_parser_def twin_tree_def page_markup_neq)

lemma page_run:
  "scraper_cell (tree_bs4 page_parser) (serve ok_page) (clock_at 0) fresh_kernel () =
     (None,
      \<lparr>var_response = Some ok_page, var_soup = Some page_tree, var_now = Some 0,
       posts_details = Some [(''Hello'', [(''link'', ''/r/1''), (''content'', ''ab'')])],
       stdout = [''Title: Hello\<newline>Link: /r/1\<newline>Content: ab\<newline>'']\<rparr>,
      ())"
  by (simp add: scraper_cell_def serve_def ok_page_def page_articles fresh_kernel_def clock_at_def)
     (simp add: tree_bs4_def page_tree_def page_parser_def strip_def lstrip_def rstrip_def isspace_def
         replace_char_def dict_get_def)

lemma twin_run:
  "scraper_cell (tree_bs4 page_parser) (serve ok_twins) (clock_at 0) fresh_kernel () =
     (None,
      \<lparr>var_response = Some ok_twins, var_soup = Some twin_tree, var_now = Some 0,
       posts_details = Some [(''Same'', [(''link'', ''/r/2''), (''content'', ''No content'')])],
       stdout = [''Title: Same\<newline>Link: /r/2\<newline>Content: No content\<newline>'']\<rparr>,
      ())"
  by (simp add: scraper_cell_def serve_def ok_twins_def twin_articles fresh_kernel_def clock_at_def)
     (simp add: tree_bs4_def twin_tree_def page_parser_def page_markup_neq strip_def lstrip_def
         rstrip_def isspace_def replace_char_def dict_get_def)

lemma stale_run:
  "posts_details (fst (snd (scraper_cell (tree_bs4 page_parser) (serve ok_page) (clock_at 9) stale_kernel ()))) =
     Some [(''Hello'', [(''link'', ''/r/1''), (''content'', ''ab'')])]"
  by (simp add: scraper_cell_def serve_def ok_page_def page_articles stale_kernel_def clock_at_def)
     (simp add: tree_bs4_def page_tree_def page_parser_def strip_def lstrip_def rstrip_def isspace_def
         replace_char_def dict_get_def)

lemma page_claimed:
  "claimed_record (tree_bs4 page_parser) (hd page_tree) =
     Some (''Hello'', [(''link'', ''/r/1''), (''content'', ''a\<newline>b'')])"
  by (simp add: claimed_record_def tree_bs4_def page_tree_def strip_def lstrip_def rstrip_def isspace_def)

lemma twin_claimed:
  "claimed_record (tree_bs4 page_parser) (hd twin_tree) =
     Some (''Same'', [(''link'', ''/r/1''), (''content'', ''No content'')])"
  by (simp add: claimed_record_def tree_bs4_def twin_tree_def strip_def lstrip_def rstrip_def isspace_def)

lemma str_int_429: "str_int 429 = ''429''"
  by code_simp

subsection \<open>Statements about the cell\<close>

text \<open>
  C4, as stated, fails. On a page whose only article has the text body \<open>a\<close>, line feed,
  \<open>b\<close>, the cell stores the content \<open>ab\<close>, not the stripped text. On a page with two
  articles of the same title, the dictionary holds one record, the second article's, and
  the first article's record is not in it.
\<close>

theorem scraper_claimed_records_counterexample:
  "status_code ok_page = 200 \<and> status_code ok_twins = 200 \<and>
   posts_details (fst (snd (scraper_cell (tree_bs4 page_parser) (serve ok_page) (clock_at 0) fresh_kernel ())))
     = Some [(''Hello'', [(''link'', ''/r/1''), (''content'', ''ab'')])] \<and>
   \<not> claimed_posts (tree_bs4 page_parser)
       (find_all (tree_bs4 page_parser)
          (BeautifulSoup (tree_bs4 page_parser) (response_text ok_page) ''html.parser'') ''article'')
       [(''Hello'', [(''link'', ''/r/1''), (''content'', ''ab'')])] \<and>
   posts_details (fst (snd (scraper_cell (tree_bs4 page_parser) (serve ok_twins) (clock_at 0) fresh_kernel ())))
     = Some [(''Same'', [(''link'', ''/r/2''), (''content'', ''No content'')])] \<and>
   \<not> claimed_posts (tree_bs4 page_parser)
       (find_all (tree_bs4 page_parser)
          (BeautifulSoup (tree_bs4 page_parser) (response_text ok_twins) ''html.parser'') ''article'')
       [(''Same'', [(''link'', ''/r/2''), (''content'', ''No content'')])]"
proof -
  have "\<not> claimed_posts (tree_bs4 page_parser) page_tree
            [(''Hello'', [(''link'', ''/r/1''), (''content'', ''ab'')])]"
    using page_claimed by (simp add: claimed_posts_def page_tree_def)
  moreover have "\<not> claimed_posts (tree_bs4 page_parser) twin_tree
            [(''Same'', [(''link'', ''/r/2''), (''content'', ''No content'')])]"
    using twin_claimed by (simp add: claimed_posts_def twin_tree_def)
  ultimately show ?thesis
    by (simp add: page_run twin_run) (simp add: ok_page_def ok_twins_def page_articles twin_articles)
qed

text \<open>
  C4, amended. For a response with status code 200 whose title links all carry an href,
  the cell ends without an exception and leaves a dictionary \<open>posts_details\<close> in which
  every article with a title link has its stripped title as a key, every value has
  exactly the two fields \<open>link\<close> and \<open>content\<close>, and the value under a title is the
  record of the last article with that title: \<open>link\<close> is the title tag's href and
  \<open>content\<close> is the stripped text of the text-body div with every line feed removed,
  or \<open>No content\<close> when the article has no such div.
\<close>

theorem scraper_builds_flattened_records:
  assumes fetch: "requests_get scraper_request w = (Inr response, w')"
      and ok: "status_code response = 200"
      and arts: "articles =
                   find_all bs (BeautifulSoup bs (response_text response) ''html.parser'') ''article''"
      and href: "list_all (has_href bs) articles"
  shows "\<exists>k' pd. scraper_cell bs requests_get datetime_now k w = (None, k', w') \<and>
           posts_details k' = Some pd \<and>
           two_fields pd \<and>
           (\<forall>title. map_of pd title = last_record bs articles title) \<and>
           (\<forall>article\<in>set articles. \<forall>title d.
              flattened_record bs article = Some (title, d) \<longrightarrow> title \<in> fst ` set pd)"
proof -
  define pd where "pd = snd (article_loop bs articles [])"
  have two_fields_Nil: "two_fields []" by (simp add: two_fields_def)
  have loop: "article_loop bs articles [] = (None, pd)"
    using article_loop_records [OF href, of "[]"] by (simp add: pd_def prod_eq_iff)
  have fields: "two_fields pd"
    using article_loop_records [OF href, of "[]"] two_fields_Nil by (simp add: pd_def)
  have recs: "map_of pd title = last_record bs articles title" for title
    using article_loop_records [OF href, of "[]" title] by (simp add: pd_def split: option.splits)
  obtain out where out: "print_loop pd (stdout k) = (None, out)"
    using print_loop_two_fields [OF fields, of "stdout k"] by (cases "print_loop pd (stdout k)") simp
  have keys: "title \<in> fst ` set pd"
    if "article \<in> set articles" "flattened_record bs article = Some (title, d)" for article title d
  proof -
    from last_record_present [OF that] recs obtain d' where "map_of pd title = Some d'" by auto
    then show ?thesis by (auto dest: map_of_SomeD intro: rev_image_eqI)
  qed
  have "scraper_cell bs requests_get datetime_now k w =
          (None,
           k\<lparr>var_response := Some response,
             var_soup := Some (BeautifulSoup bs (response_text response) ''html.parser''),
             var_now := Some (datetime_now w'), posts_details := Some pd, stdout := out\<rparr>,
           w')"
    using fetch ok arts [symmetric] loop out by (simp add: scraper_cell_def)
  then show ?thesis using fields recs keys by auto
qed

text \<open>The amended statement on the first page, from a fresh kernel.\<close>

theorem scraper_builds_flattened_records_witness:
  "serve ok_page scraper_request () = (Inr ok_page, ()) \<and> status_code ok_page = 200 \<and>
   list_all (has_href (tree_bs4 page_parser)) page_tree \<and>
   (\<exists>k' pd. scraper_cell (tree_bs4 page_parser) (serve ok_page) (clock_at 0) fresh_kernel () = (None, k', ()) \<and>
      posts_details k' = Some pd \<and>
      map_of pd ''Hello'' = Some [(''link'', ''/r/1''), (''content'', ''ab'')])"
proof -
  have fetch: "serve ok_page scraper_request () = (Inr ok_page, ())" by (simp add: serve_def)
  have ok: "status_code ok_page = 200" by (simp add: ok_page_def)
  have arts: "page_tree = find_all (tree_bs4 page_parser)
      (BeautifulSoup (tree_bs4 page_parser) (response_text ok_page) ''html.parser'') ''article''"
    by (simp add: ok_page_def page_articles)
  have href: "list_all (has_href (tree_bs4 page_parser)) page_tree"
    by (simp add: has_href_def tree_bs4_def page_tree_def)
  have last: "last_record (tree_bs4 page_parser) page_tree ''Hello'' =
                Some [(''link'', ''/r/1''), (''content'', ''ab'')]"
    by (simp add: page_tree_def flattened_record_def tree_bs4_def strip_def lstrip_def rstrip_def
        isspace_def replace_char_def)
  from scraper_builds_flattened_records
    [where requests_get = "serve ok_page" and w = "()" and w' = "()" and response = ok_page
       and articles = page_tree and bs = "tree_bs4 page_parser"
       and datetime_now = "clock_at 0" and k = fresh_kernel,
     OF fetch ok arts href]
  show ?thesis using fetch ok href last by auto
qed

text \<open>
  C5, as stated, fails. A run that fetches a response with status code 429 does not
  leave \<open>posts_details\<close> empty: after an earlier run that fetched the first page it
  still holds that page's record, and in a fresh kernel it is unassigned, which is not
  the empty dictionary.
\<close>

theorem scraper_failure_not_empty_counterexample:
  "status_code too_many \<noteq> 200 \<and>
   posts_details
     (fst (snd (scraper_cell (tree_bs4 page_parser) (serve too_many) (clock_at 9)
        (fst (snd (scraper_cell (tree_bs4 page_parser) (serve ok_page) (clock_at 0) fresh_kernel ())))
        ()))) =
     Some [(''Hello'', [(''link'', ''/r/1''), (''content'', ''ab'')])] \<and>
   posts_details
     (fst (snd (scraper_cell (tree_bs4 page_parser) (serve too_many) (clock_at 9)
        (fst (snd (scraper_cell (tree_bs4 page_parser) (serve ok_page) (clock_at 0) fresh_kernel ())))
        ()))) \<noteq> Some [] \<and>
   posts_details
     (fst (snd (scraper_cell (tree_bs4 page_parser) (serve too_many) (clock_at 9) fresh_kernel ()))) = None \<and>
   posts_details
     (fst (snd (scraper_cell (tree_bs4 page_parser) (serve too_many) (clock_at 9) fresh_kernel ())))
     \<noteq> Some []"
  by (simp add: page_run) (simp add: scraper_cell_def serve_def too_many_def fresh_kernel_def)

text \<open>
  C5, amended. A run of the cell calls \<open>requests.get\<close> exactly once, whatever the
  outcome: the log of an observed \<open>requests.get\<close> grows by one entry and the network is
  left as that one call left it. When the status code is not 200, the run ends without
  an exception, assigns \<open>response\<close>, prints the one line with the status code, and
  changes nothing else: \<open>posts_details\<close> and \<open>soup\<close> are left exactly as they were
  before the run, so no record is added and nothing is parsed.
\<close>

theorem scraper_no_retry_on_failure:
  "snd (snd (scraper_cell bs (logged requests_get) datetime_now k (w, log))) =
     (snd (requests_get scraper_request w), log @ [scraper_request]) \<and>
   (requests_get' scraper_request w0 = (Inr response, w1) \<and> status_code response \<noteq> 200 \<longrightarrow>
      scraper_cell bs' requests_get' datetime_now' k0 w0 =
        (None,
         k0\<lparr>var_response := Some response,
            stdout := stdout k0 @
              [''Failed to retrieve the webpage: Status code '' @ str_int (status_code response)]\<rparr>,
         w1) \<and>
      posts_details (fst (snd (scraper_cell bs' requests_get' datetime_now' k0 w0))) = posts_details k0 \<and>
      var_soup (fst (snd (scraper_cell bs' requests_get' datetime_now' k0 w0))) = var_soup k0)"
  by (auto simp: scraper_cell_def logged_def Let_def split: prod.splits sum.splits option.splits)

text \<open>
  A response with status code 429, in a kernel that holds the record and the output of
  an earlier run: the record stays, one line is added, one fetch is logged.
\<close>

theorem scraper_no_retry_on_failure_witness:
  "serve too_many scraper_request () = (Inr too_many, ()) \<and> status_code too_many \<noteq> 200 \<and>
   scraper_cell (tree_bs4 page_parser) (serve too_many) (clock_at 9) stale_kernel () =
     (None,
      \<lparr>var_response = Some too_many, var_soup = Some twin_tree, var_now = Some 7,
       posts_details = Some [(''Old'', [(''link'', ''/r/0''), (''content'', ''stale'')])],
       stdout = [''Title: Old\<newline>Link: /r/0\<newline>Content: stale\<newline>'',
                 ''Failed to retrieve the webpage: Status code 429'']\<rparr>,
      ()) \<and>
   snd (snd (scraper_cell (tree_bs4 page_parser) (logged (serve too_many)) (clock_at 9) stale_kernel ((), []))) =
     ((), [scraper_request])"
  using scraper_no_retry_on_failure
    [of "tree_bs4 page_parser" "serve too_many" "clock_at 9" stale_kernel "()" "[]"
        "serve too_many" "()" too_many "()" "tree_bs4 page_parser" "clock_at 9" stale_kernel]
  by (simp add: serve_def too_many_def stale_kernel_def str_int_429)

text \<open>
  C8. Two runs of the cell that fetch a response with status code 200 and the same text
  leave the same \<open>posts_details\<close> and end with the same outcome, whatever the kernel
  states in which they start, the clocks and the networks: the dictionary is the result
  of the article loop on the parsed text, started from the empty dictionary.
\<close>

theorem scraper_records_depend_on_page_only:
  assumes "requests_get1 scraper_request w1 = (Inr r1, w1')"
      and "requests_get2 scraper_request w2 = (Inr r2, w2')"
      and "status_code r1 = 200" and "status_code r2 = 200"
      and "response_text r1 = response_text r2"
  shows "posts_details (fst (snd (scraper_cell bs requests_get1 now1 k1 w1))) =
           posts_details (fst (snd (scraper_cell bs requests_get2 now2 k2 w2))) \<and>
         fst (scraper_cell bs requests_get1 now1 k1 w1) = fst (scraper_cell bs requests_get2 now2 k2 w2) \<and>
         posts_details (fst (snd (scraper_cell bs requests_get1 now1 k1 w1))) =
           Some (snd (article_loop bs
             (find_all bs (BeautifulSoup bs (response_text r1) ''html.parser'') ''article'') []))"
proof -
  let ?soup = "BeautifulSoup bs (response_text r1) ''html.parser''"
  obtain err pd where loop: "article_loop bs (find_all bs ?soup ''article'') [] = (err, pd)"
    by (cases "article_loop bs (find_all bs ?soup ''article'') []")
  have "two_fields (snd (article_loop bs (find_all bs ?soup ''article'') []))"
    by (rule article_loop_two_fields) (simp add: two_fields_def)
  with loop have fields: "two_fields pd" by simp
  have run: "fst (scraper_cell bs get now k w) = err \<and>
             posts_details (fst (snd (scraper_cell bs get now k w))) = Some pd"
    if "get scraper_request w = (Inr r, w')" "status_code r = 200" "response_text r = response_text r1"
    for get :: "request \<Rightarrow> ('x, response) action" and now :: "'x \<Rightarrow> 'y" and k w r w'
    using that loop print_loop_two_fields [OF fields, of "stdout k"]
    by (auto simp: scraper_cell_def Let_def split: prod.splits option.splits)
  have "fst (scraper_cell bs requests_get1 now1 k1 w1) = err \<and>
        posts_details (fst (snd (scraper_cell bs requests_get1 now1 k1 w1))) = Some pd"
    using assms(1,3) by (rule run) simp
  moreover have "fst (scraper_cell bs requests_get2 now2 k2 w2) = err \<and>
        posts_details (fst (snd (scraper_cell bs requests_get2 now2 k2 w2))) = Some pd"
    using assms(2,4) by (rule run) (simp add: assms(5))
  ultimately show ?thesis using loop by simp
qed

text \<open>
  The same page fetched from a fresh kernel and from a kernel that holds the records and
  the output of an earlier run: the records of the earlier run are gone.
\<close>

theorem scraper_records_depend_on_page_only_witness:
  "serve ok_page scraper_request () = (Inr ok_page, ()) \<and> status_code ok_page = 200 \<and>
   posts_details (fst (snd (scraper_cell (tree_bs4 page_parser) (serve ok_page) (clock_at 0) fresh_kernel ()))) =
     posts_details (fst (snd (scraper_cell (tree_bs4 page_parser) (serve ok_page) (clock_at 9) stale_kernel ()))) \<and>
   posts_details (fst (snd (scraper_cell (tree_bs4 page_parser) (serve ok_page) (clock_at 9) stale_kernel ()))) =
     Some [(''Hello'', [(''link'', ''/r/1''), (''content'', ''ab'')])]"
proof -
  have fetch: "serve ok_page scraper_request () = (Inr ok_page, ())" by (simp add: serve_def)
  have ok: "status_code ok_page = 200" by (simp add: ok_page_def)
  from scraper_records_depend_on_page_only
    [where ?requests_get1.0 = "serve ok_page" and ?requests_get2.0 = "serve ok_page"
       and ?w1.0 = "()" and ?w2.0 = "()" and ?r1.0 = ok_page and ?r2.0 = ok_page
       and ?w1' = "()" and ?w2' = "()" and bs = "tree_bs4 page_parser"
       and ?now1.0 = "clock_at 0" and ?now2.0 = "clock_at 9"
       and ?k1.0 = fresh_kernel and ?k2.0 = stale_kernel,
     OF fetch fetch ok ok refl]
  show ?thesis using fetch ok stale_run by simp
qed

section \<open>Properties of the PRAW cell\<close>

lemma spec_reached_shift:
  "spec_reached c (Suc l) = map (\<lambda>(k, b). (Suc k, b)) (spec_reached c l)"
proof (induction c l rule: spec_reached.induct)
  case (3 b rs level)
  then have "map (\<lambda>r. spec_reached r (Suc (Suc level))) rs =
             map (\<lambda>r. map (\<lambda>(k, b). (Suc k, b)) (spec_reached r (Suc level))) rs"
    by simp
  then have "concat (map (\<lambda>r. spec_reached r (Suc (Suc level))) rs) =
             concat (map (\<lambda>r. map (\<lambda>(k, b). (Suc k, b)) (spec_reached r (Suc level))) rs)"
    by (rule arg_cong)
  then show ?case by (simp add: map_concat comp_def)
qed simp_all

lemma concat_two_spaces: "concat (replicate n ''  '') = replicate (2 * n) CHR '' ''"
  by (induction n) simp_all

lemma spacer_of_replicate: "spacer_of depth = replicate (2 * nat depth) CHR '' ''"
  by (simp add: spacer_of_def concat_two_spaces)

lemma format_line_shift:
  "map (\<lambda>(level, b). format_line (depth + 1 + int level) b) (spec_reached c l) =
   map (\<lambda>(level, b). format_line (depth + int level) b) (spec_reached c (Suc l))"
  by (simp add: spec_reached_shift comp_def case_prod_unfold add.assoc)

lemma foldr_max_le: "(foldr max xs 0 \<le> n) = (\<forall>x\<in>set xs. x \<le> (n::nat))"
  by (induction xs) auto

lemma nesting_Comment: "0 < nesting (Comment b rs)"
  by (cases rs) simp_all

text \<open>
  The function and its loop at any depth, when the calls still allowed cover the
  nesting, by the induction that follows the calls of the two: a comment that is
  \<open>level\<close> levels below the start is formatted at \<open>depth + level\<close>.
\<close>

lemma walk_lines:
  "(case c of MoreComments ch \<Rightarrow> True
    | Comment b rs \<Rightarrow>
        nesting c \<le> frames \<longrightarrow>
        get_comments_with_replies frames c depth =
          Inr (map (\<lambda>(level, b). format_line (depth + int level) b) (spec_reached c 0),
               after_call c))"
  "(\<forall>r\<in>set rs. nesting r \<le> frames) \<longrightarrow>
   replies_loop frames rs depth acc =
     Inr (acc @ map (\<lambda>(level, b). format_line (depth + int level) b)
                  (concat (map (\<lambda>r. spec_reached r (Suc 0)) rs)),
          map after_call rs)"
proof (induction frames c depth and frames rs depth acc
    rule: get_comments_with_replies_replies_loop.induct)
  case (1 comment depth)
  then show ?case using nesting_Comment by (auto split: comment.splits)
next
  case (4 frames b rs depth)
  then show ?case by (simp add: foldr_max_le)
next
  case (7 frames b rs rest depth comments_list)
  then show ?case by (simp add: format_line_shift)
qed simp_all

text \<open>The function and its loop when the nesting exceeds the calls still allowed.\<close>

lemma walk_overflow:
  "(case c of MoreComments ch \<Rightarrow> True
    | Comment b rs \<Rightarrow>
        frames < nesting c \<longrightarrow> get_comments_with_replies frames c depth = Inl RecursionError)"
  "(\<exists>r\<in>set rs. frames < nesting r) \<longrightarrow> replies_loop frames rs depth acc = Inl RecursionError"
proof (induction frames c depth and frames rs depth acc
    rule: get_comments_with_replies_replies_loop.induct)
  case (1 comment depth)
  then show ?case by (simp split: comment.splits)
next
  case (4 frames b rs depth)
  have "Suc frames < nesting (Comment b (Some rs)) \<Longrightarrow> \<exists>r\<in>set rs. frames < nesting r"
    using foldr_max_le [of "map nesting rs" frames] by (auto simp: not_le)
  with 4 show ?case by auto
next
  case (7 frames b rs rest depth comments_list)
  show ?case
  proof (cases "frames < nesting (Comment b rs)")
    case True
    with 7(1) show ?thesis by simp
  next
    case False
    then have "get_comments_with_replies frames (Comment b rs) (depth + 1) =
        Inr (map (\<lambda>(level, b). format_line (depth + 1 + int level) b) (spec_reached (Comment b rs) 0),
             after_call (Comment b rs))"
      using walk_lines(1) [where c = "Comment b rs" and frames = frames and depth = "depth + 1"]
      by simp
    with 7(2) False show ?thesis by auto
  qed
qed simp_all

lemma format_line_spec_line:
  "0 \<le> depth \<Longrightarrow> format_line (depth + int level) b = spec_line depth (level, b)"
  by (simp add: format_line_def spec_line_def spacer_of_replicate nat_add_distrib)

lemma nesting_chain: "nesting (chain n) = Suc n"
  by (induction n) simp_all

lemma nesting_thread: "nesting thread = 3"
  by (simp add: thread_def)

lemma thread_lines:
  "map (\<lambda>(level, b). format_line (depth + int level) b) (spec_reached thread 0) =
     [format_line depth ''a'', format_line (depth + 1) ''b'', format_line (depth + 1) ''c'',
      format_line (depth + 2) ''d'']"
  by (simp add: thread_def)

lemma thread_after:
  "after_call thread =
     Comment ''a''
       (Some [Comment ''b'' (Some []),
              MoreComments [Comment ''x'' None],
              Comment ''c'' (Some [Comment ''d'' (Some [])])])"
  by (simp add: thread_def)

text \<open>
  C9, as stated, fails. At the starting depth -1 the replies of the first comment are
  not indented, where the stated format has two spaces for each level below the start.
  On a comment with a chain of 1100 replies below it, with 1000 calls still allowed,
  the function raises RecursionError and returns no list.
\<close>

theorem get_comments_with_replies_counterexample:
  "get_comments_with_replies 3 thread (- 1) =
     Inr ([''- a'', ''- b'', ''- c'', ''  - d''],
          Comment ''a''
            (Some [Comment ''b'' (Some []),
                   MoreComments [Comment ''x'' None],
                   Comment ''c'' (Some [Comment ''d'' (Some [])])])) \<and>
   map (spec_line (- 1)) (spec_reached thread 0) = [''- a'', ''  - b'', ''  - c'', ''    - d''] \<and>
   get_comments_with_replies 3 thread (- 1) \<noteq>
     Inr (map (spec_line (- 1)) (spec_reached thread 0), after_call thread) \<and>
   get_comments_with_replies 1000 (chain 1100) 0 = Inl RecursionError"
proof -
  have "nesting thread \<le> 3" by (simp add: nesting_thread)
  then have "get_comments_with_replies 3 thread (- 1) =
      Inr (map (\<lambda>(level, b). format_line (- 1 + int level) b) (spec_reached thread 0),
           after_call thread)"
    using walk_lines(1) [where c = thread and frames = 3 and depth = "- 1"]
    by (simp add: thread_def)
  also have "map (\<lambda>(level, b). format_line (- 1 + int level) b) (spec_reached thread 0) =
      [format_line (- 1) ''a'', format_line (- 1 + 1) ''b'', format_line (- 1 + 1) ''c'',
       format_line (- 1 + 2) ''d'']"
    by (rule thread_lines)
  also have "\<dots> = [''- a'', ''- b'', ''- c'', ''  - d'']"
    by (simp add: format_line_def spacer_of_def)
  finally have first: "get_comments_with_replies 3 thread (- 1) =
      Inr ([''- a'', ''- b'', ''- c'', ''  - d''], after_call thread)" .
  have second: "map (spec_line (- 1)) (spec_reached thread 0) =
      [''- a'', ''  - b'', ''  - c'', ''    - d'']"
    by (simp add: thread_def spec_line_def eval_nat_numeral)
  have "1000 < nesting (chain 1100)" by (simp add: nesting_chain)
  then have third: "get_comments_with_replies 1000 (chain 1100) 0 = Inl RecursionError"
    using walk_overflow(1) [where c = "chain 1100" and frames = 1000 and depth = 0]
    by (cases "chain 1100") simp_all
  from first second third show ?thesis by (simp add: thread_after)
qed

text \<open>
  C9, amended. Called on a comment of a finite comment tree whose nesting does not
  exceed the calls that the interpreter still allows, the function returns the list
  with one line for each comment reached in depth-first order, MoreComments nodes and
  all below them left out; the line of a comment that is \<open>level\<close> levels below the
  start is the spacer of \<open>depth + level\<close>, then \<open>- \<close> and the body, which for a depth
  that is not negative is two spaces for each nesting level, counted from the starting
  depth. When the nesting exceeds the calls still allowed, the function raises
  RecursionError. A comment without the \<open>replies\<close> attribute gives the result of the
  same comment with an empty list of replies.
\<close>

theorem get_comments_with_replies_lines:
  "(nesting (Comment b rs) \<le> frames \<longrightarrow>
      get_comments_with_replies frames (Comment b rs) depth =
        Inr (map (\<lambda>(level, b). format_line (depth + int level) b) (spec_reached (Comment b rs) 0),
             after_call (Comment b rs))) \<and>
   (nesting (Comment b rs) \<le> frames \<and> 0 \<le> depth \<longrightarrow>
      get_comments_with_replies frames (Comment b rs) depth =
        Inr (map (spec_line depth) (spec_reached (Comment b rs) 0), after_call (Comment b rs))) \<and>
   (frames < nesting (Comment b rs) \<longrightarrow>
      get_comments_with_replies frames (Comment b rs) depth = Inl RecursionError) \<and>
   get_comments_with_replies frames (Comment b None) depth =
     get_comments_with_replies frames (Comment b (Some [])) depth"
proof -
  have same: "map (\<lambda>(level, b). format_line (depth + int level) b) xs = map (spec_line depth) xs"
    if "0 \<le> depth" for xs
    using that by (induction xs) (auto simp: format_line_spec_line)
  have lines: "nesting (Comment b rs) \<le> frames \<Longrightarrow>
      get_comments_with_replies frames (Comment b rs) depth =
        Inr (map (\<lambda>(level, b). format_line (depth + int level) b) (spec_reached (Comment b rs) 0),
             after_call (Comment b rs))"
    using walk_lines(1) [where c = "Comment b rs" and frames = frames and depth = depth] by simp
  have overflow: "frames < nesting (Comment b rs) \<Longrightarrow>
      get_comments_with_replies frames (Comment b rs) depth = Inl RecursionError"
    using walk_overflow(1) [where c = "Comment b rs" and frames = frames and depth = depth] by simp
  have none: "get_comments_with_replies frames (Comment b None) depth =
      get_comments_with_replies frames (Comment b (Some [])) depth"
    by (cases frames) simp_all
  from lines overflow none same show ?thesis by simp
qed

text \<open>
  The tree \<open>thread\<close> at depth 0: with three calls allowed, four lines, the reply under
  the MoreComments node left out; with two, RecursionError.
\<close>

theorem get_comments_with_replies_lines_witness:
  "nesting thread \<le> 3 \<and> (0::int) \<le> 0 \<and>
   get_comments_with_replies 3 thread 0 =
     Inr ([''- a'', ''  - b'', ''  - c'', ''    - d''],
          Comment ''a''
            (Some [Comment ''b'' (Some []),
                   MoreComments [Comment ''x'' None],
                   Comment ''c'' (Some [Comment ''d'' (Some [])])])) \<and>
   2 < nesting thread \<and>
   get_comments_with_replies 2 thread 0 = Inl RecursionError"
  using
    get_comments_with_replies_lines
      [of "''a''" "Some [Comment ''b'' None, MoreComments [Comment ''x'' None],
                         Comment ''c'' (Some [Comment ''d'' (Some [])])]" 3 0]
    get_comments_with_replies_lines
      [of "''a''" "Some [Comment ''b'' None, MoreComments [Comment ''x'' None],
                         Comment ''c'' (Some [Comment ''d'' (Some [])])]" 2 0]
  by (simp add: thread_def spec_line_def eval_nat_numeral)

section \<open>Properties of summarize.txt\<close>

text \<open>
  C3. The file holds a prompt template and an executable scraping script at once: the
  placeholder line of the transcript, and the lines of a code cell that fetch the
  subreddit page and parse it, are lines of the same file.
\<close>

theorem summarize_txt_mixes_prompt_and_scraper:
  \<open>''`{transcript}`'' \<in> set summarize_txt \<and>
   (''    "response = requests.get(url, headers=headers)'' @ [CHR 0x5C] @ ''n",'') \<in> set summarize_txt \<and>
   (''    "    soup = BeautifulSoup(response.text, 'html.parser')'' @ [CHR 0x5C] @ ''n",'')
     \<in> set summarize_txt\<close>
  by code_simp

text \<open>
  C7. The replacement fields of the first 50 lines are the five placeholders, and no code
  cell opens there; the file as a whole has 359 lines and eight code cells.
\<close>

theorem summarize_txt_holds_code_cells:
  "concat (map brace_fields summarize_prompt) =
     [''title'', ''description'', ''transcript'', ''predefined_topics'', ''summary''] \<and>
   length summarize_prompt = 50 \<and>
   filter is_code_cell_line summarize_prompt = [] \<and>
   length summarize_txt = 359 \<and>
   length (filter is_code_cell_line summarize_txt) = 8"
  by code_simp

end
